theory Spec2Isabelle
  imports Main "HOL-Library.Extended_Nat"
begin

section \<open>The host language: values, numbers and strings\<close>

text \<open>
  The interpreter (\<^verbatim>\<open>src/lib/pseudocode-interpreter.tsx\<close>) is a TypeScript class. Its own code is
  embedded below, function by function. What it calls from the ECMAScript standard library is
  modelled in this section and the next one.

  Strings. A source line is a list of \<^typ>\<open>char\<close>; a character stands for the code unit of the
  same number, so the model covers texts over U+0000 .. U+00FF. In that range the class
  \<^verbatim>\<open>[\w\u00C0-\u024F]\<close> is \<^verbatim>\<open>\w\<close> together with the codes 192 .. 255, and
  \<^verbatim>\<open>toLowerCase\<close> (as well as matching under the flag \<^verbatim>\<open>i\<close>) folds A-Z and the
  codes 192 .. 222 except 215.

  Numbers. A number is an IEEE double: not-a-number, an infinity or a finite value, which is a
  rational. Minus zero is identified with zero: the interpreter only looks at numbers through
  \<^verbatim>\<open>String\<close>, \<^verbatim>\<open>JSON.stringify\<close>, \<^verbatim>\<open>===\<close> and truthiness, and none of them
  tells the two apart.
\<close>

datatype jsnum = NaN | PInf | NInf | Fin rat

text \<open>
  The values that a variable can hold and that the host can return. \<open>VObj k\<close> is any value of
  the host that is none of the others (an object that is not an array, a function, a symbol, a
  BigInt), known by a number \<open>k\<close>; the host says how it converts.
\<close>

datatype val = VNum jsnum | VStr string | VBool bool | VNull | VUndefined | VArr "val list" | VObj nat

text \<open>
  What the calls of the interpreter into the host can throw: the RangeError of
  \<^verbatim>\<open>new Array(n)\<close>, the TypeError of a method call on undefined, and the TypeError of a
  conversion (\<^verbatim>\<open>String\<close>, \<^verbatim>\<open>Number\<close> or \<^verbatim>\<open>JSON.stringify\<close>) of a value that has none.
\<close>

datatype exn = InvalidArrayLength | ReadOfUndefined | CannotConvert

text \<open>
  The parts of the host that are taken as parameters:
  \<^item> \<open>jsEval\<close> is \<^verbatim>\<open>new Function(src)()\<close>: the value returned, or \<open>None\<close> when building or
    running the function throws; the function is taken to have no effect on the interpreter;
  \<^item> \<open>parseFloat\<close> is the global function of that name;
  \<^item> \<open>stringToNumber\<close> is \<^verbatim>\<open>Number\<close> on a string;
  \<^item> \<open>bigToString\<close> is \<^verbatim>\<open>String\<close> on a finite number that is not an integer of magnitude
    at most \<open>2^53\<close>;
  \<^item> \<open>objToString\<close> and \<open>objToNumber\<close> are \<^verbatim>\<open>String\<close> and \<^verbatim>\<open>Number\<close> on a value \<open>VObj k\<close>,
    \<open>None\<close> when the conversion throws;
  \<^item> \<open>objToJson\<close> is \<^verbatim>\<open>JSON.stringify\<close> on a value \<open>VObj k\<close>: \<open>None\<close> when it throws,
    \<open>Some None\<close> when it returns undefined, and else the text;
  \<^item> \<open>objTruthy\<close> is \<^verbatim>\<open>Boolean\<close> on a value \<open>VObj k\<close>;
  \<^item> \<open>errorToString\<close> is the text of a thrown error inside a template literal.
\<close>

record host =
  jsEval :: "string \<Rightarrow> val option"
  parseFloat :: "string \<Rightarrow> jsnum"
  stringToNumber :: "string \<Rightarrow> jsnum"
  bigToString :: "rat \<Rightarrow> string"
  objToString :: "nat \<Rightarrow> string option"
  objToNumber :: "nat \<Rightarrow> jsnum option"
  objToJson :: "nat \<Rightarrow> string option option"
  objTruthy :: "nat \<Rightarrow> bool"
  errorToString :: "exn \<Rightarrow> string"

subsection \<open>Characters\<close>

definition charCode :: "char \<Rightarrow> nat" where
  "charCode c = of_char c"

definition isDigit :: "char \<Rightarrow> bool" where
  "isDigit c = (48 \<le> charCode c \<and> charCode c \<le> 57)"

definition isSpace :: "char \<Rightarrow> bool" where
  "isSpace c = (charCode c \<in> {9, 10, 11, 12, 13, 32, 160})"

definition isAlpha :: "char \<Rightarrow> bool" where
  "isAlpha c = ((65 \<le> charCode c \<and> charCode c \<le> 90) \<or> (97 \<le> charCode c \<and> charCode c \<le> 122))"

definition isWord :: "char \<Rightarrow> bool" where
  "isWord c = (isAlpha c \<or> isDigit c \<or> charCode c = 95)"

definition isAccent :: "char \<Rightarrow> bool" where
  "isAccent c = (192 \<le> charCode c)"

definition isIdChar :: "char \<Rightarrow> bool" where
  "isIdChar c = (isWord c \<or> isAccent c)"

definition isIdStart :: "char \<Rightarrow> bool" where
  "isIdStart c = (isAlpha c \<or> charCode c = 95 \<or> isAccent c)"

definition isLineTerminator :: "char \<Rightarrow> bool" where
  "isLineTerminator c = (charCode c = 10 \<or> charCode c = 13)"

definition lowerChar :: "char \<Rightarrow> char" where
  "lowerChar c = (let n = charCode c in
     if (65 \<le> n \<and> n \<le> 90) \<or> (192 \<le> n \<and> n \<le> 222 \<and> n \<noteq> 215)
     then char_of (n + 32) else c)"

subsection \<open>String methods\<close>

definition toLowerCase :: "string \<Rightarrow> string" where
  "toLowerCase s = map lowerChar s"

fun startsWith :: "string \<Rightarrow> string \<Rightarrow> bool" where
  "startsWith [] s = True"
| "startsWith (p # ps) [] = False"
| "startsWith (p # ps) (c # cs) = (p = c \<and> startsWith ps cs)"

definition endsWith :: "string \<Rightarrow> string \<Rightarrow> bool" where
  "endsWith p s = startsWith (rev p) (rev s)"

fun includes_s :: "string \<Rightarrow> string \<Rightarrow> bool" where
  "includes_s p [] = (p = [])"
| "includes_s p (c # cs) = (startsWith p (c # cs) \<or> includes_s p cs)"

definition trim :: "string \<Rightarrow> string" where
  "trim s = rev (dropWhile isSpace (rev (dropWhile isSpace s)))"

text \<open>\<^verbatim>\<open>s.split(c)\<close> for a separator of one character: never the empty list.\<close>

fun split :: "char \<Rightarrow> string \<Rightarrow> string list" where
  "split sep [] = [[]]"
| "split sep (c # cs) =
     (case split sep cs of
        [] \<Rightarrow> [[c]]
      | p # ps \<Rightarrow> if c = sep then [] # p # ps else (c # p) # ps)"

text \<open>\<^verbatim>\<open>s.slice(1, -1)\<close>.\<close>

definition slice1 :: "string \<Rightarrow> string" where
  "slice1 s = take (length s - 2) (drop 1 s)"

fun join :: "string \<Rightarrow> string list \<Rightarrow> string" where
  "join sep [] = []"
| "join sep [x] = x"
| "join sep (x # y # ys) = x @ sep @ join sep (y # ys)"

subsection \<open>Numbers and values as text\<close>

fun digitsOf :: "nat \<Rightarrow> string" where
  "digitsOf n = (if n < 10 then [char_of (48 + n)] else digitsOf (n div 10) @ [char_of (48 + n mod 10)])"

declare digitsOf.simps [simp del]

definition isInteger :: "rat \<Rightarrow> bool" where
  "isInteger q = (of_int \<lfloor>q\<rfloor> = q)"

text \<open>
  \<^verbatim>\<open>String(x)\<close> for a number \<open>x\<close>. An integer of magnitude at most \<open>2^53\<close> is a double and
  prints as its decimal digits; the text of any other finite number comes from the host.
\<close>

definition numToString :: "host \<Rightarrow> jsnum \<Rightarrow> string" where
  "numToString h x =
     (case x of
        NaN \<Rightarrow> ''NaN''
      | PInf \<Rightarrow> ''Infinity''
      | NInf \<Rightarrow> ''-Infinity''
      | Fin q \<Rightarrow>
          if isInteger q \<and> \<bar>q\<bar> \<le> 2 ^ 53
          then (if q < 0 then ''-'' @ digitsOf (nat (- \<lfloor>q\<rfloor>)) else digitsOf (nat \<lfloor>q\<rfloor>))
          else bigToString h q)"

text \<open>
  \<^verbatim>\<open>String(v)\<close>, \<open>None\<close> when it throws. An array is joined with commas, null and undefined
  elements being empty.
\<close>

fun toStr :: "host \<Rightarrow> val \<Rightarrow> string option" where
  "toStr h (VNum x) = Some (numToString h x)"
| "toStr h (VStr s) = Some s"
| "toStr h (VBool b) = Some (if b then ''true'' else ''false'')"
| "toStr h VNull = Some ''null''"
| "toStr h VUndefined = Some ''undefined''"
| "toStr h (VArr xs) =
     map_option (join '','')
       (those (map (\<lambda>e. if e = VNull \<or> e = VUndefined then Some [] else toStr h e) xs))"
| "toStr h (VObj k) = objToString h k"

definition hexDigit :: "nat \<Rightarrow> char" where
  "hexDigit n = (if n < 10 then char_of (48 + n) else char_of (87 + n))"

text \<open>The escape of one character inside a JSON string literal.\<close>

definition jsonEscape :: "char \<Rightarrow> string" where
  "jsonEscape c =
     (if c = CHR 0x22 then [CHR 0x5C, CHR 0x22]
      else if c = CHR 0x5C then [CHR 0x5C, CHR 0x5C]
      else if charCode c = 8 then [CHR 0x5C, CHR ''b'']
      else if charCode c = 12 then [CHR 0x5C, CHR ''f'']
      else if charCode c = 10 then [CHR 0x5C, CHR ''n'']
      else if charCode c = 13 then [CHR 0x5C, CHR ''r'']
      else if charCode c = 9 then [CHR 0x5C, CHR ''t'']
      else if charCode c < 32 then [CHR 0x5C, CHR ''u'', CHR ''0'', CHR ''0'', hexDigit (charCode c div 16), hexDigit (charCode c mod 16)]
      else [c])"

text \<open>
  \<^verbatim>\<open>JSON.stringify\<close>, \<open>None\<close> when it throws: first for an element of an array, where a value
  without a JSON text reads \<^verbatim>\<open>null\<close>, then for the value \<open>v\<close> itself, as the text that
  \<^verbatim>\<open>String.prototype.replace\<close> inserts: when \<^verbatim>\<open>JSON.stringify(v)\<close> is undefined, that text is
  \<^verbatim>\<open>undefined\<close>.
\<close>

fun jsonElem :: "host \<Rightarrow> val \<Rightarrow> string option" where
  "jsonElem h (VNum x) = Some (case x of Fin q \<Rightarrow> numToString h x | _ \<Rightarrow> ''null'')"
| "jsonElem h (VStr s) = Some ([CHR 0x22] @ concat (map jsonEscape s) @ [CHR 0x22])"
| "jsonElem h (VBool b) = Some (if b then ''true'' else ''false'')"
| "jsonElem h VNull = Some ''null''"
| "jsonElem h VUndefined = Some ''null''"
| "jsonElem h (VArr xs) =
     map_option (\<lambda>ts. ''['' @ join '','' ts @ '']'') (those (map (jsonElem h) xs))"
| "jsonElem h (VObj k) =
     (case objToJson h k of
        None \<Rightarrow> None
      | Some None \<Rightarrow> Some ''null''
      | Some (Some t) \<Rightarrow> Some t)"

definition jsonStringify :: "host \<Rightarrow> val \<Rightarrow> string option" where
  "jsonStringify h v =
     (case v of
        VUndefined \<Rightarrow> Some ''undefined''
      | VObj k \<Rightarrow>
          (case objToJson h k of
             None \<Rightarrow> None
           | Some None \<Rightarrow> Some ''undefined''
           | Some (Some t) \<Rightarrow> Some t)
      | _ \<Rightarrow> jsonElem h v)"

text \<open>\<^verbatim>\<open>Boolean(v)\<close>.\<close>

fun truthy :: "host \<Rightarrow> val \<Rightarrow> bool" where
  "truthy h (VNum x) = (x \<noteq> NaN \<and> x \<noteq> Fin 0)"
| "truthy h (VStr s) = (s \<noteq> [])"
| "truthy h (VBool b) = b"
| "truthy h VNull = False"
| "truthy h VUndefined = False"
| "truthy h (VArr xs) = True"
| "truthy h (VObj k) = objTruthy h k"

text \<open>\<^verbatim>\<open>Number(v)\<close>, \<open>None\<close> when it throws.\<close>

fun toNumber :: "host \<Rightarrow> val \<Rightarrow> jsnum option" where
  "toNumber h (VNum x) = Some x"
| "toNumber h (VStr s) = Some (stringToNumber h s)"
| "toNumber h (VBool b) = Some (if b then Fin 1 else Fin 0)"
| "toNumber h VNull = Some (Fin 0)"
| "toNumber h VUndefined = Some NaN"
| "toNumber h (VArr xs) = map_option (stringToNumber h) (toStr h (VArr xs))"
| "toNumber h (VObj k) = objToNumber h k"

text \<open>\<^verbatim>\<open>a === b\<close> on two numbers.\<close>

definition numEq :: "jsnum \<Rightarrow> jsnum \<Rightarrow> bool" where
  "numEq a b = (a \<noteq> NaN \<and> a = b)"

text \<open>
  \<^verbatim>\<open>parseInt(s)\<close> on a string of decimal digits, which is all the interpreter passes. The
  exact value is rounded to the nearest double (ties to even); \<open>\<infinity>\<close> is Infinity.
\<close>

fun decimalValue :: "nat \<Rightarrow> string \<Rightarrow> nat" where
  "decimalValue acc [] = acc"
| "decimalValue acc (c # cs) = decimalValue (10 * acc + (charCode c - 48)) cs"

fun bitLength :: "nat \<Rightarrow> nat" where
  "bitLength n = (if n = 0 then 0 else Suc (bitLength (n div 2)))"

declare bitLength.simps [simp del]

definition roundDouble :: "nat \<Rightarrow> enat" where
  "roundDouble n =
     (if n \<le> 2 ^ 53 then enat n
      else let e = bitLength n - 53;
               q = n div 2 ^ e;
               r = n mod 2 ^ e;
               q' = (if 2 * r > 2 ^ e \<or> (2 * r = 2 ^ e \<and> odd q) then q + 1 else q)
           in if q' * 2 ^ e \<ge> 2 ^ 1024 then \<infinity> else enat (q' * 2 ^ e))"

definition parseInt :: "string \<Rightarrow> enat" where
  "parseInt s = roundDouble (decimalValue 0 s)"

definition numOfEnat :: "enat \<Rightarrow> jsnum" where
  "numOfEnat x = (case x of enat n \<Rightarrow> Fin (of_nat n) | \<infinity> \<Rightarrow> PInf)"

text \<open>\<^verbatim>\<open>v + step\<close> on two such numbers.\<close>

definition addDouble :: "enat \<Rightarrow> enat \<Rightarrow> enat" where
  "addDouble a b = (case a + b of enat n \<Rightarrow> roundDouble n | \<infinity> \<Rightarrow> \<infinity>)"

section \<open>Regular expressions\<close>

text \<open>
  The regular expressions of the source are values of the type \<open>regex\<close>, matched by a
  backtracking matcher that lists the possible outcomes in the order in which ECMAScript tries
  them, so that the head of the list is the match that \<^verbatim>\<open>RegExp.prototype.exec\<close> reports.
  \<open>Lit\<close> is a literal text, \<open>LitI\<close> a literal text under the flag \<^verbatim>\<open>i\<close>, \<open>Ch\<close> a character
  class, \<open>Star\<close> the greedy and \<open>StarLazy\<close> the lazy iteration, \<open>Cap n\<close> the capture group \<open>n\<close>,
  \<open>Bol\<close> and \<open>Eol\<close> the anchors, \<open>WordB\<close> the word boundary, \<open>NotBehind\<close> and \<open>NotAhead\<close> a
  negative look-behind and look-ahead of one character.
\<close>

datatype regex =
    Ch "char \<Rightarrow> bool"
  | Lit string
  | LitI string
  | Seq regex regex
  | Alt regex regex
  | Star regex
  | StarLazy regex
  | Cap nat regex
  | Bol
  | Eol
  | WordB
  | NotBehind "char \<Rightarrow> bool"
  | NotAhead "char \<Rightarrow> bool"
  | Eps

text \<open>
  A matcher state: \<open>prev\<close> is the text before the current position, reversed; \<open>rest\<close> the text
  from the current position on; \<open>caps\<close> the captures made so far, the latest first.
\<close>

record mstate =
  prev :: string
  rest :: string
  caps :: "(nat \<times> string) list"

definition advance :: "char \<Rightarrow> string \<Rightarrow> mstate \<Rightarrow> mstate" where
  "advance c cs st = st\<lparr>prev := c # prev st, rest := cs\<rparr>"

primrec starG :: "nat \<Rightarrow> (mstate \<Rightarrow> mstate list) \<Rightarrow> mstate \<Rightarrow> mstate list" where
  "starG 0 f st = [st]"
| "starG (Suc n) f st =
     concat (map (\<lambda>st'. if length (rest st') < length (rest st) then starG n f st' else []) (f st))
     @ [st]"

primrec starL :: "nat \<Rightarrow> (mstate \<Rightarrow> mstate list) \<Rightarrow> mstate \<Rightarrow> mstate list" where
  "starL 0 f st = [st]"
| "starL (Suc n) f st =
     st # concat (map (\<lambda>st'. if length (rest st') < length (rest st) then starL n f st' else []) (f st))"

fun litMatch :: "(char \<Rightarrow> char) \<Rightarrow> string \<Rightarrow> mstate \<Rightarrow> mstate list" where
  "litMatch f [] st = [st]"
| "litMatch f (p # ps) st =
     (case rest st of
        [] \<Rightarrow> []
      | c # cs \<Rightarrow> if f c = f p then litMatch f ps (advance c cs st) else [])"

definition nextIs :: "(char \<Rightarrow> bool) \<Rightarrow> string \<Rightarrow> bool" where
  "nextIs P s = (case s of [] \<Rightarrow> False | c # _ \<Rightarrow> P c)"

primrec rx :: "regex \<Rightarrow> mstate \<Rightarrow> mstate list" where
  "rx (Ch P) st = (case rest st of [] \<Rightarrow> [] | c # cs \<Rightarrow> if P c then [advance c cs st] else [])"
| "rx (Lit p) st = litMatch id p st"
| "rx (LitI p) st = litMatch lowerChar p st"
| "rx (Seq r1 r2) st = concat (map (rx r2) (rx r1 st))"
| "rx (Alt r1 r2) st = rx r1 st @ rx r2 st"
| "rx (Star r) st = starG (Suc (length (rest st))) (rx r) st"
| "rx (StarLazy r) st = starL (Suc (length (rest st))) (rx r) st"
| "rx (Cap n r) st =
     map (\<lambda>st'. st'\<lparr>caps := (n, take (length (rest st) - length (rest st')) (rest st)) # caps st'\<rparr>)
       (rx r st)"
| "rx Bol st = (if prev st = [] then [st] else [])"
| "rx Eol st = (if rest st = [] then [st] else [])"
| "rx WordB st = (if nextIs isWord (prev st) \<noteq> nextIs isWord (rest st) then [st] else [])"
| "rx (NotBehind P) st = (if nextIs P (prev st) then [] else [st])"
| "rx (NotAhead P) st = (if nextIs P (rest st) then [] else [st])"
| "rx Eps st = [st]"

text \<open>The first match at the current position, if any.\<close>

definition matchHere :: "regex \<Rightarrow> string \<Rightarrow> string \<Rightarrow> mstate option" where
  "matchHere r bef s = (case rx r \<lparr>prev = bef, rest = s, caps = []\<rparr> of [] \<Rightarrow> None | m # _ \<Rightarrow> Some m)"

text \<open>The leftmost match from the current position on.\<close>

fun searchFrom :: "regex \<Rightarrow> string \<Rightarrow> string \<Rightarrow> mstate option" where
  "searchFrom r bef [] = matchHere r bef []"
| "searchFrom r bef (c # cs) =
     (case matchHere r bef (c # cs) of
        Some m \<Rightarrow> Some m
      | None \<Rightarrow> searchFrom r (c # bef) cs)"

text \<open>\<^verbatim>\<open>r.test(s)\<close>, and \<^verbatim>\<open>s.match(r)\<close> as the captures of the match.\<close>

definition regexTest :: "regex \<Rightarrow> string \<Rightarrow> bool" where
  "regexTest r s = (searchFrom r [] s \<noteq> None)"

definition regexMatch :: "regex \<Rightarrow> string \<Rightarrow> (nat \<times> string) list option" where
  "regexMatch r s = map_option caps (searchFrom r [] s)"

text \<open>The text of a capture group; a group that took no part in the match has none.\<close>

definition grp :: "(nat \<times> string) list \<Rightarrow> nat \<Rightarrow> string" where
  "grp m n = (case map_of m n of Some t \<Rightarrow> t | None \<Rightarrow> [])"

text \<open>
  \<^verbatim>\<open>s.replace(r, ...)\<close> for a regular expression with the flag \<^verbatim>\<open>g\<close>. The function \<open>f\<close>
  gives the text to insert from the matched text and the state of the matcher at the end of
  the match. An empty match is followed by a step of one character.
\<close>

function replaceFrom :: "regex \<Rightarrow> (string \<Rightarrow> mstate \<Rightarrow> string) \<Rightarrow> string \<Rightarrow> string \<Rightarrow> string" where
  "replaceFrom r f bef s =
     (case matchHere r bef s of
        None \<Rightarrow> (case s of [] \<Rightarrow> [] | c # cs \<Rightarrow> c # replaceFrom r f (c # bef) cs)
      | Some m \<Rightarrow>
          (if length (rest m) < length s
           then f (take (length s - length (rest m)) s) m
                @ replaceFrom r f (rev (take (length s - length (rest m)) s) @ bef)
                    (drop (length s - length (rest m)) s)
           else (case s of
                   [] \<Rightarrow> f [] m
                 | c # cs \<Rightarrow> f [] m @ c # replaceFrom r f (c # bef) cs)))"
  by pat_completeness auto
termination
  by (relation "measure (\<lambda>(r, f, bef, s). length s)") auto

declare replaceFrom.simps [simp del]

definition replaceAll :: "regex \<Rightarrow> (string \<Rightarrow> mstate \<Rightarrow> string) \<Rightarrow> string \<Rightarrow> string" where
  "replaceAll r f s = replaceFrom r f [] s"

text \<open>
  The replacement patterns of \<^verbatim>\<open>replace\<close> when the replacement is a text that the program
  does not control (the value of a variable) and the regular expression has no group:
  \<^verbatim>\<open>$$\<close>, \<^verbatim>\<open>$&\<close>, the text before and the text after the match.
\<close>

fun expandRepl :: "string \<Rightarrow> string \<Rightarrow> string \<Rightarrow> string \<Rightarrow> string" where
  "expandRepl [] matched bef aft = []"
| "expandRepl [c] matched bef aft = [c]"
| "expandRepl (c # d # ds) matched bef aft =
     (if c = CHR 0x24 \<and> d = CHR 0x24 then CHR 0x24 # expandRepl ds matched bef aft
      else if c = CHR 0x24 \<and> d = CHR 0x26 then matched @ expandRepl ds matched bef aft
      else if c = CHR 0x24 \<and> d = CHR 0x60 then bef @ expandRepl ds matched bef aft
      else if c = CHR 0x24 \<and> d = CHR 0x27 then aft @ expandRepl ds matched bef aft
      else c # expandRepl (d # ds) matched bef aft)"

definition withText :: "string \<Rightarrow> string \<Rightarrow> mstate \<Rightarrow> string" where
  "withText t matched m = expandRepl t matched (rev (drop (length matched) (prev m))) (rest m)"

definition constText :: "string \<Rightarrow> string \<Rightarrow> mstate \<Rightarrow> string" where
  "constText t matched m = t"

subsection \<open>The regular expressions of the source\<close>

definition cat :: "regex list \<Rightarrow> regex" where
  "cat rs = foldr Seq rs Eps"

definition Plus :: "regex \<Rightarrow> regex" where
  "Plus r = Seq r (Star r)"

definition PlusLazy :: "regex \<Rightarrow> regex" where
  "PlusLazy r = Seq r (StarLazy r)"

definition Opt :: "regex \<Rightarrow> regex" where
  "Opt r = Alt r Eps"

definition anyChar :: "char \<Rightarrow> bool" where
  "anyChar c = (\<not> isLineTerminator c)"

definition sp :: regex where
  "sp = Ch isSpace"

text \<open>\<^verbatim>\<open>/;$/g\<close>\<close>

definition re_semicolon :: regex where
  "re_semicolon = cat [Lit '';'', Eol]"

text \<open>\<^verbatim>\<open>/;\s*(Entonces|entonces)/gi\<close>\<close>

definition re_semiEntonces :: regex where
  "re_semiEntonces = cat [Lit '';'', Star sp, Cap 1 (Alt (LitI ''Entonces'') (LitI ''entonces''))]"

text \<open>\<^verbatim>\<open>/definir\s+([\w\u00C0-\u024F]+)\s+como\s+(\w+)/i\<close>\<close>

definition re_definir :: regex where
  "re_definir = cat [LitI ''definir'', Plus sp, Cap 1 (Plus (Ch isIdChar)), Plus sp,
     LitI ''como'', Plus sp, Cap 2 (Plus (Ch isWord))]"

text \<open>\<^verbatim>\<open>/dimension\s+(\w+)\[(\d+)\]/i\<close>\<close>

definition re_dimension :: regex where
  "re_dimension = cat [LitI ''dimension'', Plus sp, Cap 1 (Plus (Ch isWord)), Lit ''['',
     Cap 2 (Plus (Ch isDigit)), Lit '']'']"

text \<open>\<^verbatim>\<open>/leer\s+(.+)/i\<close>\<close>

definition re_leer :: regex where
  "re_leer = cat [LitI ''leer'', Plus sp, Cap 1 (Plus (Ch anyChar))]"

text \<open>\<^verbatim>\<open>/escribir\s+(.+)/i\<close>\<close>

definition re_escribir :: regex where
  "re_escribir = cat [LitI ''escribir'', Plus sp, Cap 1 (Plus (Ch anyChar))]"

text \<open>\<^verbatim>\<open>/mientras\s+(.+)\s+hacer/i\<close>\<close>

definition re_mientras :: regex where
  "re_mientras = cat [LitI ''mientras'', Plus sp, Cap 1 (Plus (Ch anyChar)), Plus sp, LitI ''hacer'']"

text \<open>\<^verbatim>\<open>/para\s+(\w+)\s*<-\s*(\d+)\s+hasta\s+(\d+)(?:\s+con\s+paso\s+(\d+))?/i\<close>\<close>

definition re_para :: regex where
  "re_para = cat [LitI ''para'', Plus sp, Cap 1 (Plus (Ch isWord)), Star sp, Lit ''<-'', Star sp,
     Cap 2 (Plus (Ch isDigit)), Plus sp, LitI ''hasta'', Plus sp, Cap 3 (Plus (Ch isDigit)),
     Opt (cat [Plus sp, LitI ''con'', Plus sp, LitI ''paso'', Plus sp, Cap 4 (Plus (Ch isDigit))])]"

text \<open>\<^verbatim>\<open>/segun\s+([\w\u00C0-\u024F]+)\s+hacer/i\<close>\<close>

definition re_segun :: regex where
  "re_segun = cat [LitI ''segun'', Plus sp, Cap 1 (Plus (Ch isIdChar)), Plus sp, LitI ''hacer'']"

text \<open>\<^verbatim>\<open>/^([\d\w\u00C0-\u024F\s,'"]+):$/i\<close>\<close>

definition isCaseChar :: "char \<Rightarrow> bool" where
  "isCaseChar c = (isDigit c \<or> isWord c \<or> isAccent c \<or> isSpace c \<or> c = CHR '','' \<or> c = CHR 0x27 \<or> c = CHR 0x22)"

definition re_case :: regex where
  "re_case = cat [Bol, Cap 1 (Plus (Ch isCaseChar)), Lit '':'', Eol]"

text \<open>\<^verbatim>\<open>/si\s+(.+?)\s+entonces/i\<close>\<close>

definition re_si :: regex where
  "re_si = cat [LitI ''si'', Plus sp, Cap 1 (PlusLazy (Ch anyChar)), Plus sp, LitI ''entonces'']"

text \<open>\<^verbatim>\<open>/^si\s+/\<close>\<close>

definition re_siOpen :: regex where
  "re_siOpen = cat [Bol, Lit ''si'', Plus sp]"

text \<open>\<^verbatim>\<open>/^sino\s+si\s+/\<close>, also written with the flag \<^verbatim>\<open>i\<close> and applied to a lowercased line\<close>

definition re_sinoSi :: regex where
  "re_sinoSi = cat [Bol, LitI ''sino'', Plus sp, LitI ''si'', Plus sp]"

text \<open>\<^verbatim>\<open>/sino\s+si\s+(.+?)\s+entonces/i\<close>\<close>

definition re_sinoSiCond :: regex where
  "re_sinoSiCond = cat [LitI ''sino'', Plus sp, LitI ''si'', Plus sp, Cap 1 (PlusLazy (Ch anyChar)),
     Plus sp, LitI ''entonces'']"

text \<open>\<^verbatim>\<open>/([\w\u00C0-\u024F]+(?:\[[\w\u00C0-\u024F]+\])?)\s*(?:<-|=)\s*(.+)/i\<close>\<close>

definition re_assign :: regex where
  "re_assign = cat [Cap 1 (cat [Plus (Ch isIdChar), Opt (cat [Lit ''['', Plus (Ch isIdChar), Lit '']''])]),
     Star sp, Alt (Lit ''<-'') (Lit ''=''), Star sp, Cap 2 (Plus (Ch anyChar))]"

text \<open>\<^verbatim>\<open>/(\w+)\[(\w+)\]/\<close>\<close>

definition re_arrayTarget :: regex where
  "re_arrayTarget = cat [Cap 1 (Plus (Ch isWord)), Lit ''['', Cap 2 (Plus (Ch isWord)), Lit '']'']"

text \<open>\<^verbatim>\<open>/^\s*verdadero\s*$/i\<close>\<close>

definition re_verdaderoOnly :: regex where
  "re_verdaderoOnly = cat [Bol, Star sp, LitI ''verdadero'', Star sp, Eol]"

text \<open>\<^verbatim>\<open>/^[a-zA-Z_\u00C0-\u024F][\w\u00C0-\u024F]*$/\<close> and \<^verbatim>\<open>/^\d+$/\<close>\<close>

definition re_identifier :: regex where
  "re_identifier = cat [Bol, Ch isIdStart, Star (Ch isIdChar), Eol]"

definition re_allDigits :: regex where
  "re_allDigits = cat [Bol, Plus (Ch isDigit), Eol]"

text \<open>
  \<^verbatim>\<open>new RegExp(`(?<![\\w\\u00C0-\\u024F])${escapedName}(?![\\w\\u00C0-\\u024F])`, 'gi')\<close>:
  the escaped name matches the name literally.
\<close>

definition re_variable :: "string \<Rightarrow> regex" where
  "re_variable nm = cat [NotBehind isIdChar, LitI nm, NotAhead isIdChar]"

text \<open>\<^verbatim>\<open>/raiz\s*\(\s*(.+?)\s*\)/gi\<close> and the like, replaced by \<^verbatim>\<open>Math.sqrt($1)\<close> and the like\<close>

definition re_call :: "string \<Rightarrow> regex" where
  "re_call fn = cat [LitI fn, Star sp, Lit ''('', Star sp, Cap 1 (PlusLazy (Ch anyChar)), Star sp, Lit '')'']"

definition callText :: "string \<Rightarrow> string \<Rightarrow> mstate \<Rightarrow> string" where
  "callText fn matched m = fn @ ''('' @ grp (caps m) 1 @ '')''"

text \<open>\<^verbatim>\<open>/\bVERDADERO\b/gi\<close> and the like\<close>

definition re_wordI :: "string \<Rightarrow> regex" where
  "re_wordI w = cat [WordB, LitI w, WordB]"

text \<open>\<^verbatim>\<open>/(?<![<>!])=(?!=)/g\<close>\<close>

definition re_loneEq :: regex where
  "re_loneEq = cat [NotBehind (\<lambda>c. c = CHR ''<'' \<or> c = CHR ''>'' \<or> c = CHR ''!''), Lit ''='',
     NotAhead (\<lambda>c. c = CHR ''='')]"

section \<open>The interpreter state\<close>

record variable =
  vname :: string
  vtype :: string
  vvalue :: val

datatype nodeType = Start | End | Process | Decision | Input | Output

record flowchartNode =
  nid :: string
  ntype :: nodeType
  ntext :: string
  nchildren :: "string list"

record executionResult =
  r_output :: "string list"
  r_errors :: "string list"
  r_flowchart :: "flowchartNode list"

text \<open>
  The fields of the class \<^verbatim>\<open>PseudocodeInterpreter\<close>. The map \<open>variables\<close> is a list of
  bindings in insertion order, which is the order in which a \<^verbatim>\<open>Map\<close> is iterated.

  The two callbacks are the outside world. The input callback is a function of the prompts it
  has been given so far, the last one being the current prompt; \<open>prompts\<close> records them. The
  variable change callback is present or absent; \<open>notified\<close> records the snapshots it is given.

  \<open>dispatched\<close> is not a field of the class. It is an observation added to the model:
  \<open>executeLine\<close> records, on entry, the index it is called with and the value of \<open>hasError\<close> at
  that moment. Nothing reads it.
\<close>

record interp =
  variables :: "(string \<times> variable) list"
  outputs :: "string list"
  errors :: "string list"
  flowchart :: "flowchartNode list"
  nodeCounter :: nat
  inputCallback :: "(string list \<Rightarrow> string) option"
  variableChangeCallback :: bool
  hasError :: bool
  prompts :: "string list"
  notified :: "variable list list"
  dispatched :: "(nat \<times> bool) list"

text \<open>
  The outcome of a call that may throw or may not return: \<open>Thrown\<close> carries the state at the
  moment of the throw, since the fields of the class keep what was written before it.
\<close>

datatype 'a outcome = OutOfFuel | Thrown exn interp | Return 'a

text \<open>\<^verbatim>\<open>Map.prototype.get\<close> and \<^verbatim>\<open>Map.prototype.set\<close>.\<close>

definition mapGet :: "(string \<times> variable) list \<Rightarrow> string \<Rightarrow> variable option" where
  "mapGet vars k = map_of vars k"

fun mapSet :: "string \<Rightarrow> variable \<Rightarrow> (string \<times> variable) list \<Rightarrow> (string \<times> variable) list" where
  "mapSet k v [] = [(k, v)]"
| "mapSet k v ((k', v') # ps) = (if k' = k then (k, v) # ps else (k', v') # mapSet k v ps)"

definition notifyVariableChange :: "interp \<Rightarrow> interp" where
  "notifyVariableChange s =
     (if variableChangeCallback s then s\<lparr>notified := notified s @ [map snd (variables s)]\<rparr> else s)"

definition reset :: "interp \<Rightarrow> interp" where
  "reset s = s\<lparr>variables := [], outputs := [], errors := [], flowchart := [], nodeCounter := 0,
     hasError := False, prompts := [], notified := [], dispatched := []\<rparr>"

definition addFlowchartNode :: "nodeType \<Rightarrow> string \<Rightarrow> interp \<Rightarrow> interp" where
  "addFlowchartNode ty txt s =
     s\<lparr>flowchart := flowchart s @ [\<lparr>nid = ''node_'' @ digitsOf (nodeCounter s), ntype = ty, ntext = txt, nchildren = []\<rparr>],
       nodeCounter := nodeCounter s + 1\<rparr>"

definition getDefaultValue :: "string \<Rightarrow> val" where
  "getDefaultValue ty =
     (let t = toLowerCase ty in
      if t = ''entero'' \<or> t = ''real'' then VNum (Fin 0)
      else if t = ''caracter'' \<or> t = ''cadena'' then VStr []
      else if t = ''logico'' then VBool False
      else VNull)"

definition pushError :: "string \<Rightarrow> interp \<Rightarrow> interp" where
  "pushError msg s = s\<lparr>errors := errors s @ [msg], hasError := True\<rparr>"

section \<open>Expressions and conditions\<close>

definition dq :: char where
  "dq = CHR 0x22"

definition sq :: char where
  "sq = CHR 0x27"

definition quoted :: "string \<Rightarrow> bool" where
  "quoted t = ((startsWith [dq] t \<and> endsWith [dq] t) \<or> (startsWith [sq] t \<and> endsWith [sq] t))"

text \<open>
  \<open>splitByComma\<close>: the loop over the characters, with the character before the current one
  (\<open>None\<close> at index 0), and then the last part.
\<close>

fun splitLoop :: "string \<Rightarrow> char option \<Rightarrow> string list \<Rightarrow> string \<Rightarrow> bool \<Rightarrow> string \<Rightarrow> string list \<times> string" where
  "splitLoop [] pr parts current inString stringChar = (parts, current)"
| "splitLoop (c # cs) pr parts current inString stringChar =
     (if (c = dq \<or> c = sq) \<and> pr \<noteq> Some (CHR 0x5C) then
        (if \<not> inString then splitLoop cs (Some c) parts (current @ [c]) True [c]
         else if [c] = stringChar then splitLoop cs (Some c) parts (current @ [c]) False stringChar
         else splitLoop cs (Some c) parts (current @ [c]) inString stringChar)
      else if c = CHR '','' \<and> \<not> inString then
        splitLoop cs (Some c) (if trim current \<noteq> [] then parts @ [trim current] else parts) []
          inString stringChar
      else splitLoop cs (Some c) parts (current @ [c]) inString stringChar)"

definition splitByComma :: "string \<Rightarrow> string list" where
  "splitByComma expr =
     (case splitLoop expr None [] [] False [] of
        (parts, current) \<Rightarrow> if trim current \<noteq> [] then parts @ [trim current] else parts)"

text \<open>
  The loop that replaces each variable, in the order of the map, by a text made from its value.
  The text is made before the replacement, whether the name occurs or not; \<open>None\<close> when making
  it throws.
\<close>

fun substituteVars :: "(variable \<Rightarrow> string option) \<Rightarrow> (string \<times> variable) list \<Rightarrow> string \<Rightarrow> string option" where
  "substituteVars f [] expr = Some expr"
| "substituteVars f ((nm, var) # others) expr =
     (case f var of
        None \<Rightarrow> None
      | Some t \<Rightarrow> substituteVars f others (replaceAll (re_variable nm) (withText t) expr))"

text \<open>The chain of replacements of \<open>evaluateSimpleExpression\<close>.\<close>

definition rewriteExpr :: "string \<Rightarrow> string" where
  "rewriteExpr e0 =
     (let e1 = replaceAll (re_call ''raiz'') (callText ''Math.sqrt'') e0;
          e2 = replaceAll (re_call ''abs'') (callText ''Math.abs'') e1;
          e3 = replaceAll (re_call ''sen'') (callText ''Math.sin'') e2;
          e4 = replaceAll (re_call ''cos'') (callText ''Math.cos'') e3;
          e5 = replaceAll (re_call ''tan'') (callText ''Math.tan'') e4;
          e6 = replaceAll (re_call ''ln'') (callText ''Math.log'') e5;
          e7 = replaceAll (re_call ''exp'') (callText ''Math.exp'') e6;
          e8 = replaceAll (re_call ''trunc'') (callText ''Math.trunc'') e7;
          e9 = replaceAll (re_call ''redon'') (callText ''Math.round'') e8;
          e10 = replaceAll (Lit ''^'') (constText ''**'') e9;
          e11 = replaceAll (LitI ''mod'') (constText ''%'') e10;
          e12 = replaceAll (re_wordI ''VERDADERO'') (constText ''true'') e11
      in replaceAll (re_wordI ''FALSO'') (constText ''false'') e12)"

text \<open>
  \<open>evaluateSimpleExpression\<close>. The loop over the variables is outside the \<^verbatim>\<open>try\<close>: the
  result is \<open>None\<close> when \<^verbatim>\<open>String\<close> throws on the value of a variable.
\<close>

definition evaluateSimpleExpression :: "host \<Rightarrow> string \<Rightarrow> interp \<Rightarrow> val option" where
  "evaluateSimpleExpression h expr s =
     (case substituteVars (\<lambda>var. toStr h (vvalue var)) (variables s) expr of
        None \<Rightarrow> None
      | Some substituted \<Rightarrow>
          (let processedExpr = rewriteExpr substituted in
           case jsEval h (''return '' @ processedExpr) of
             Some result \<Rightarrow> Some result
           | None \<Rightarrow> Some (VStr processedExpr)))"

text \<open>The chain of replacements of \<open>evaluateCondition\<close>.\<close>

definition rewriteCond :: "string \<Rightarrow> string" where
  "rewriteCond c0 =
     (let c1 = replaceAll (re_wordI ''Y'') (constText ''&&'') c0;
          c2 = replaceAll (re_wordI ''O'') (constText ''||'') c1;
          c3 = replaceAll (re_wordI ''NO'') (constText ''!'') c2;
          c4 = replaceAll (Lit ''<>'') (constText ''!=='') c3;
          c5 = replaceAll (Lit ''>='') (constText ''>='') c4;
          c6 = replaceAll (Lit ''<='') (constText ''<='') c5;
          c7 = replaceAll re_loneEq (constText ''==='') c6;
          c8 = replaceAll (LitI ''VERDADERO'') (constText ''true'') c7
      in replaceAll (LitI ''FALSO'') (constText ''false'') c8)"

text \<open>
  \<open>evaluateCondition\<close>. The loop over the variables is outside the \<^verbatim>\<open>try\<close>: the result is
  \<open>None\<close> when \<^verbatim>\<open>JSON.stringify\<close> throws on the value of a variable.
\<close>

definition evaluateCondition :: "host \<Rightarrow> string \<Rightarrow> interp \<Rightarrow> bool option" where
  "evaluateCondition h condition s =
     (case substituteVars (\<lambda>var. jsonStringify h (vvalue var)) (variables s) condition of
        None \<Rightarrow> None
      | Some substituted \<Rightarrow>
          (let processed = rewriteCond substituted in
           case jsEval h (''return '' @ processed) of
             Some result \<Rightarrow> Some (truthy h result)
           | None \<Rightarrow> Some False))"

definition undefinedInExpr :: "string \<Rightarrow> string" where
  "undefinedInExpr trimmed = ''Error: La variable \"'' @ trimmed @ ''\" no ha sido definida.''"

text \<open>
  \<open>evaluateExpression\<close>: the loop over the parts of a concatenation, with the results so far,
  and then the function. It returns the value and the state, because it may record an error;
  it throws when a conversion to text does.
\<close>

fun concatParts :: "host \<Rightarrow> string list \<Rightarrow> string list \<Rightarrow> interp \<Rightarrow> (string list \<times> interp) outcome" where
  "concatParts h [] results s = Return (results, s)"
| "concatParts h (part # parts) results s =
     (let trimmed = trim part in
      if quoted trimmed then concatParts h parts (results @ [slice1 trimmed]) s
      else
        (case mapGet (variables s) (toLowerCase trimmed) of
           Some varValue \<Rightarrow>
             (case toStr h (vvalue varValue) of
                None \<Rightarrow> Thrown CannotConvert s
              | Some t \<Rightarrow> concatParts h parts (results @ [t]) s)
         | None \<Rightarrow>
             if regexTest re_identifier trimmed \<and> \<not> regexTest re_allDigits trimmed
             then concatParts h parts (results @ [''['' @ trimmed @ ''?]''])
                    (pushError (undefinedInExpr trimmed) s)
             else
               (case evaluateSimpleExpression h trimmed s of
                  None \<Rightarrow> Thrown CannotConvert s
                | Some v \<Rightarrow>
                    (case toStr h v of
                       None \<Rightarrow> Thrown CannotConvert s
                     | Some t \<Rightarrow> concatParts h parts (results @ [t]) s))))"

definition evaluateExpression :: "host \<Rightarrow> string \<Rightarrow> interp \<Rightarrow> (val \<times> interp) outcome" where
  "evaluateExpression h expr s =
     (if includes_s [dq] expr \<or> includes_s [sq] expr then
        (case concatParts h (splitByComma expr) [] s of
           Return (results, s') \<Rightarrow> Return (VStr (join '' '' results), s')
         | Thrown x t \<Rightarrow> Thrown x t
         | OutOfFuel \<Rightarrow> OutOfFuel)
      else
        (case evaluateSimpleExpression h expr s of
           None \<Rightarrow> Thrown CannotConvert s
         | Some v \<Rightarrow> Return (v, s)))"

section \<open>Statements\<close>

text \<open>
  \<open>executeLine\<close> calls itself to run the lines of a block. In the functions of this section the
  recursive call is the parameter \<open>exec\<close> (the index of a line and the state, to the state and
  the index of the next line); \<open>executeLine\<close> ties the knot at the end. Since a program may run
  forever, the calls are counted down from an amount of fuel.
\<close>

type_synonym exec = "nat \<Rightarrow> interp \<Rightarrow> (interp \<times> nat) outcome"

text \<open>
  The loop that runs the lines of a block:
  \<^verbatim>\<open>while (j < e && !this.hasError) { j = await this.executeLine(lines, j) }\<close>
\<close>

fun runBlock :: "exec \<Rightarrow> nat \<Rightarrow> nat \<Rightarrow> nat \<Rightarrow> interp \<Rightarrow> (interp \<times> nat) outcome" where
  "runBlock exec 0 j e s = (if j < e \<and> \<not> hasError s then OutOfFuel else Return (s, j))"
| "runBlock exec (Suc k) j e s =
     (if j < e \<and> \<not> hasError s then
        (case exec j s of
           Return (s', j') \<Rightarrow> runBlock exec k j' e s'
         | Thrown x t \<Rightarrow> Thrown x t
         | OutOfFuel \<Rightarrow> OutOfFuel)
      else Return (s, j))"

text \<open>A block has been run and the statement returns the index \<open>next\<close>.\<close>

definition returning :: "(interp \<times> nat) outcome \<Rightarrow> nat \<Rightarrow> (interp \<times> nat) outcome" where
  "returning r next =
     (case r of
        Return (s, j) \<Rightarrow> Return (s, next)
      | Thrown x t \<Rightarrow> Thrown x t
      | OutOfFuel \<Rightarrow> OutOfFuel)"

text \<open>A statement has run and \<open>executeLine\<close> returns the index \<open>next\<close>.\<close>

definition nextLine :: "interp outcome \<Rightarrow> nat \<Rightarrow> (interp \<times> nat) outcome" where
  "nextLine r next =
     (case r of
        Return s \<Rightarrow> Return (s, next)
      | Thrown x t \<Rightarrow> Thrown x t
      | OutOfFuel \<Rightarrow> OutOfFuel)"

subsection \<open>Definir\<close>

definition definirStmt :: "string \<Rightarrow> interp \<Rightarrow> interp" where
  "definirStmt originalLine s =
     (case regexMatch re_definir originalLine of
        Some m \<Rightarrow>
          (let nm = grp m 1;
               ty = grp m 2;
               s1 = s\<lparr>variables := mapSet (toLowerCase nm)
                      \<lparr>vname = nm, vtype = toLowerCase ty, vvalue = getDefaultValue ty\<rparr> (variables s)\<rparr>
           in addFlowchartNode Process (''Definir '' @ nm @ '' como '' @ ty) (notifyVariableChange s1))
      | None \<Rightarrow> s)"

subsection \<open>Dimension\<close>

text \<open>\<^verbatim>\<open>new Array(n).fill(0)\<close>: a length that is not below \<open>2^32\<close> is a RangeError.\<close>

definition newArray :: "enat \<Rightarrow> val list option" where
  "newArray n =
     (case n of
        enat k \<Rightarrow> if k < 2 ^ 32 then Some (replicate k (VNum (Fin 0))) else None
      | \<infinity> \<Rightarrow> None)"

definition dimensionStmt :: "string \<Rightarrow> interp \<Rightarrow> interp outcome" where
  "dimensionStmt originalLine s =
     (case regexMatch re_dimension originalLine of
        Some m \<Rightarrow>
          (let nm = grp m 1;
               size = grp m 2
           in case newArray (parseInt size) of
                None \<Rightarrow> Thrown InvalidArrayLength s
              | Some arr \<Rightarrow>
                  Return (addFlowchartNode Process (''Dimension '' @ nm @ ''['' @ size @ '']'')
                    (notifyVariableChange
                      (s\<lparr>variables := mapSet (toLowerCase nm)
                          \<lparr>vname = nm, vtype = ''arreglo'', vvalue = VArr arr\<rparr> (variables s)\<rparr>))))
      | None \<Rightarrow> Return s)"

subsection \<open>Leer\<close>

definition undefinedVariable :: "string \<Rightarrow> string" where
  "undefinedVariable varName =
     ''Error: La variable \"'' @ varName @ ''\" no ha sido definida. Use \"Definir '' @ varName
       @ '' Como Tipo\" primero.''"

text \<open>The value stored for an input text, by the declared type.\<close>

definition readValue :: "host \<Rightarrow> string \<Rightarrow> string \<Rightarrow> val" where
  "readValue h ty v =
     (if ty = ''entero'' \<or> ty = ''real'' then
        (if truthy h (VNum (parseFloat h v)) then VNum (parseFloat h v) else VNum (Fin 0))
      else if ty = ''logico'' then VBool (regexTest re_verdaderoOnly v)
      else VStr v)"

definition inputPrompt :: "string \<Rightarrow> string" where
  "inputPrompt varName = ''Ingrese valor para '' @ varName @ '':''"

text \<open>The text that the input callback gives for a prompt; the empty text without a callback.\<close>

definition askInput :: "string \<Rightarrow> interp \<Rightarrow> string \<times> interp" where
  "askInput prompt s =
     (case inputCallback s of
        None \<Rightarrow> ([], s)
      | Some cb \<Rightarrow> (cb (prompts s @ [prompt]), s\<lparr>prompts := prompts s @ [prompt]\<rparr>))"

text \<open>
  The loop over the names of a \<open>Leer\<close>. The result is \<open>False\<close> when the loop has left the
  statement by its \<^verbatim>\<open>return\<close>.
\<close>

fun leerVars :: "host \<Rightarrow> string list \<Rightarrow> interp \<Rightarrow> bool \<times> interp" where
  "leerVars h [] s = (True, s)"
| "leerVars h (varName # others) s =
     (case mapGet (variables s) (toLowerCase varName) of
        None \<Rightarrow> (False, pushError (undefinedVariable varName) s)
      | Some existingVar \<Rightarrow>
          (case askInput (inputPrompt varName) s of
             (v, s1) \<Rightarrow>
               leerVars h others
                 (notifyVariableChange
                   (s1\<lparr>variables := mapSet (toLowerCase varName)
                       (existingVar\<lparr>vvalue := readValue h (vtype existingVar) v\<rparr>) (variables s1)\<rparr>))))"

definition leerNames :: "string \<Rightarrow> string list" where
  "leerNames t = map (\<lambda>v. replaceAll re_semicolon (constText []) (trim v)) (split (CHR '','') t)"

definition leerStmt :: "host \<Rightarrow> string \<Rightarrow> interp \<Rightarrow> interp" where
  "leerStmt h originalLine s =
     (case regexMatch re_leer originalLine of
        Some m \<Rightarrow>
          (case leerVars h (leerNames (grp m 1)) s of
             (True, s') \<Rightarrow> addFlowchartNode Input (''Leer '' @ grp m 1) s'
           | (False, s') \<Rightarrow> s')
      | None \<Rightarrow> s)"

subsection \<open>Escribir\<close>

definition escribirStmt :: "host \<Rightarrow> string \<Rightarrow> interp \<Rightarrow> interp outcome" where
  "escribirStmt h originalLine s =
     (case regexMatch re_escribir originalLine of
        Some m \<Rightarrow>
          (case evaluateExpression h (grp m 1) s of
             Return (result, s') \<Rightarrow>
               (case toStr h result of
                  None \<Rightarrow> Thrown CannotConvert s'
                | Some t \<Rightarrow>
                    Return (addFlowchartNode Output (''Escribir '' @ grp m 1)
                      (s'\<lparr>outputs := outputs s' @ [t]\<rparr>)))
           | Thrown x t \<Rightarrow> Thrown x t
           | OutOfFuel \<Rightarrow> OutOfFuel)
      | None \<Rightarrow> Return s)"

subsection \<open>Mientras\<close>

text \<open>
  The search for the end of a loop, for the keywords \<open>mientras\<close> and \<open>finmientras\<close> and for
  \<open>para\<close> and \<open>finpara\<close>: the index after the line that closes the loop.
\<close>

function findEnd :: "string \<Rightarrow> string \<Rightarrow> string list \<Rightarrow> nat \<Rightarrow> nat \<Rightarrow> nat" where
  "findEnd opener closer lines depth endIndex =
     (if endIndex < length lines \<and> depth > 0 then
        (let checkLine = toLowerCase (lines ! endIndex);
             d1 = (if startsWith opener checkLine then depth + 1 else depth);
             d2 = (if startsWith closer checkLine then d1 - 1 else d1)
         in findEnd opener closer lines d2 (endIndex + 1))
      else endIndex)"
  by pat_completeness auto
termination
  by (relation "measure (\<lambda>(opener, closer, lines, depth, endIndex). length lines - endIndex)") auto

declare findEnd.simps [simp del]

definition maxIterations :: nat where
  "maxIterations = 100"

text \<open>
  The loop of the statement, with its counter \<open>iterations\<close>; \<open>body\<close> runs the lines of the
  block once. The condition is evaluated first at every turn, and its evaluation may throw.
  The result carries the counter at the exit.
\<close>

function whileLoop :: "host \<Rightarrow> (interp \<Rightarrow> (interp \<times> nat) outcome) \<Rightarrow> string \<Rightarrow> nat \<Rightarrow> interp \<Rightarrow> (interp \<times> nat) outcome" where
  "whileLoop h body condition iterations s =
     (case evaluateCondition h condition s of
        None \<Rightarrow> Thrown CannotConvert s
      | Some c \<Rightarrow>
          if c \<and> iterations < maxIterations \<and> \<not> hasError s then
            (case body s of
               Return (s', j) \<Rightarrow> whileLoop h body condition (iterations + 1) s'
             | Thrown x t \<Rightarrow> Thrown x t
             | OutOfFuel \<Rightarrow> OutOfFuel)
          else Return (s, iterations))"
  by pat_completeness auto
termination
  by (relation "measure (\<lambda>(h, body, condition, iterations, s). maxIterations - iterations)") auto

declare whileLoop.simps [simp del]

definition mientrasBranch :: "host \<Rightarrow> exec \<Rightarrow> nat \<Rightarrow> string list \<Rightarrow> nat \<Rightarrow> string \<Rightarrow> interp \<Rightarrow> (interp \<times> nat) outcome" where
  "mientrasBranch h exec fuel lines index condition s =
     (let s1 = addFlowchartNode Decision (''Mientras '' @ condition) s;
          endIndex = findEnd ''mientras'' ''finmientras'' lines 1 (index + 1)
      in returning (whileLoop h (runBlock exec fuel (index + 1) (endIndex - 1)) condition 0 s1) endIndex)"

subsection \<open>Para\<close>

text \<open>
  The loop of the statement, with its variable \<open>v\<close>; \<open>body\<close> runs the lines of the block once.
  The result carries \<open>v\<close> at the exit.
\<close>

text \<open>The start of a pass: the variable of the loop is set to \<open>v\<close>, as an \<open>entero\<close>.\<close>

definition setLoopVariable :: "string \<Rightarrow> enat \<Rightarrow> interp \<Rightarrow> interp" where
  "setLoopVariable varName v s =
     notifyVariableChange
       (s\<lparr>variables := mapSet (toLowerCase varName)
           \<lparr>vname = varName, vtype = ''entero'', vvalue = VNum (numOfEnat v)\<rparr> (variables s)\<rparr>)"

fun forLoop :: "(interp \<Rightarrow> (interp \<times> nat) outcome) \<Rightarrow> nat \<Rightarrow> string \<Rightarrow> enat \<Rightarrow> enat \<Rightarrow> enat \<Rightarrow> interp \<Rightarrow> (interp \<times> enat) outcome" where
  "forLoop body 0 varName v endV step s =
     (if v \<le> endV \<and> \<not> hasError s then OutOfFuel else Return (s, v))"
| "forLoop body (Suc k) varName v endV step s =
     (if v \<le> endV \<and> \<not> hasError s then
        (case body (setLoopVariable varName v s) of
           Return (s', j) \<Rightarrow> forLoop body k varName (addDouble v step) endV step s'
         | Thrown x t \<Rightarrow> Thrown x t
         | OutOfFuel \<Rightarrow> OutOfFuel)
      else Return (s, v))"

definition paraBranch :: "host \<Rightarrow> exec \<Rightarrow> nat \<Rightarrow> string list \<Rightarrow> nat \<Rightarrow> (nat \<times> string) list \<Rightarrow> interp \<Rightarrow> (interp \<times> nat) outcome" where
  "paraBranch h exec fuel lines index m s =
     (let varName = grp m 1;
          startV = parseInt (grp m 2);
          endV = parseInt (grp m 3);
          step = parseInt (case map_of m 4 of Some stepVal \<Rightarrow> stepVal | None \<Rightarrow> ''1'');
          s1 = addFlowchartNode Decision
                 (''Para '' @ varName @ '' <- '' @ numToString h (numOfEnat startV) @ '' Hasta ''
                    @ numToString h (numOfEnat endV)) s;
          endIndex = findEnd ''para'' ''finpara'' lines 1 (index + 1)
      in case forLoop (runBlock exec fuel (index + 1) (endIndex - 1)) fuel varName startV endV step s1 of
           Return (s2, v) \<Rightarrow> Return (s2, endIndex)
         | Thrown x t \<Rightarrow> Thrown x t
         | OutOfFuel \<Rightarrow> OutOfFuel)"

subsection \<open>Segun\<close>

text \<open>A value of a case line is a number or a string.\<close>

datatype caseValue = CNum jsnum | CStr string

record caseItem =
  c_values :: "caseValue list"
  c_startLine :: nat
  c_endLine :: nat

text \<open>
  The variables of the scan of a \<open>Segun\<close> block. The default case is its start line and its end
  line, which is \<open>-1\<close> until the scan sets it.
\<close>

record segunScan =
  sg_depth :: nat
  sg_endIndex :: nat
  sg_cases :: "caseItem list"
  sg_defaultCase :: "(nat \<times> int) option"
  sg_currentCaseStart :: int
  sg_currentCaseValues :: "caseValue list"

text \<open>One value of a case line.\<close>

definition parseCaseValue :: "host \<Rightarrow> string \<Rightarrow> caseValue" where
  "parseCaseValue h v =
     (let trimmed = trim v in
      if quoted trimmed then CStr (slice1 trimmed)
      else if parseFloat h trimmed \<noteq> NaN then CNum (parseFloat h trimmed)
      else CStr trimmed)"

text \<open>\<open>Save previous case if exists\<close>, at the line \<open>endIndex\<close>.\<close>

definition savePrevious :: "nat \<Rightarrow> segunScan \<Rightarrow> segunScan" where
  "savePrevious endIndex sc =
     (if sg_currentCaseStart sc \<noteq> -1 \<and> sg_currentCaseValues sc \<noteq> [] then
        sc\<lparr>sg_cases := sg_cases sc @ [\<lparr>c_values = sg_currentCaseValues sc,
             c_startLine = nat (sg_currentCaseStart sc), c_endLine = endIndex\<rparr>]\<rparr>
      else sc)"

text \<open>What the scan does at a line that starts with \<open>finsegun\<close>.\<close>

definition atFinSegun :: "nat \<Rightarrow> segunScan \<Rightarrow> segunScan" where
  "atFinSegun endIndex sc0 =
     (let sc = sc0\<lparr>sg_depth := sg_depth sc0 - 1\<rparr> in
      if sg_depth sc = 0 \<and> sg_currentCaseStart sc \<noteq> -1 then
        (if sg_currentCaseValues sc \<noteq> [] then
           sc\<lparr>sg_cases := sg_cases sc @ [\<lparr>c_values = sg_currentCaseValues sc,
                c_startLine = nat (sg_currentCaseStart sc), c_endLine = endIndex\<rparr>]\<rparr>
         else
           (case sg_defaultCase sc of
              Some (startLine, endLine) \<Rightarrow>
                if int startLine = sg_currentCaseStart sc
                then sc\<lparr>sg_defaultCase := Some (startLine, int endIndex)\<rparr> else sc
            | None \<Rightarrow> sc))
      else sc)"

text \<open>What the scan does at a line when the depth is 1.\<close>

definition atDepthOne :: "host \<Rightarrow> nat \<Rightarrow> string \<Rightarrow> string \<Rightarrow> segunScan \<Rightarrow> segunScan" where
  "atDepthOne h endIndex checkLine checkOriginal sc =
     (let sc1 =
            (case regexMatch re_case checkOriginal of
               Some caseMatch \<Rightarrow>
                 if \<not> startsWith ''de otro modo'' checkLine then
                   (savePrevious endIndex sc)
                     \<lparr>sg_currentCaseValues := map (parseCaseValue h) (split (CHR '','') (grp caseMatch 1)),
                      sg_currentCaseStart := int endIndex + 1\<rparr>
                 else sc
             | None \<Rightarrow> sc)
      in if startsWith ''de otro modo'' checkLine then
           (savePrevious endIndex sc1)
             \<lparr>sg_currentCaseValues := [],
              sg_defaultCase := Some (endIndex + 1, -1),
              sg_currentCaseStart := int endIndex + 1\<rparr>
         else sc1)"

definition segunStep :: "host \<Rightarrow> string list \<Rightarrow> segunScan \<Rightarrow> segunScan" where
  "segunStep h lines sc =
     (let endIndex = sg_endIndex sc;
          checkLine = trim (toLowerCase (lines ! endIndex));
          checkOriginal = trim (lines ! endIndex);
          sc1 = (if startsWith ''segun'' checkLine then sc\<lparr>sg_depth := sg_depth sc + 1\<rparr> else sc);
          sc2 = (if startsWith ''finsegun'' checkLine then atFinSegun endIndex sc1 else sc1);
          sc3 = (if sg_depth sc2 = 1 then atDepthOne h endIndex checkLine checkOriginal sc2 else sc2)
      in sc3\<lparr>sg_endIndex := endIndex + 1\<rparr>)"

function scanSegun :: "host \<Rightarrow> string list \<Rightarrow> segunScan \<Rightarrow> segunScan" where
  "scanSegun h lines sc =
     (if sg_endIndex sc < length lines \<and> sg_depth sc > 0
      then scanSegun h lines (segunStep h lines sc) else sc)"
  by pat_completeness auto
termination
  by (relation "measure (\<lambda>(h, lines, sc). length lines - sg_endIndex sc)")
    (auto simp: segunStep_def Let_def)

declare scanSegun.simps [simp del]

definition caseText :: "host \<Rightarrow> caseValue \<Rightarrow> string" where
  "caseText h v = (case v of CNum a \<Rightarrow> numToString h a | CStr t \<Rightarrow> t)"

text \<open>
  The test of one value of a case against the value of the variable; \<open>None\<close> when the
  conversion of the value of the variable to a string throws.
\<close>

definition valueMatches :: "host \<Rightarrow> caseValue \<Rightarrow> val \<Rightarrow> bool option" where
  "valueMatches h v varValue =
     (case (v, varValue) of
        (CNum a, VNum b) \<Rightarrow> Some (numEq a b)
      | _ \<Rightarrow> map_option (\<lambda>t. toLowerCase (caseText h v) = toLowerCase t) (toStr h varValue))"

text \<open>\<^verbatim>\<open>caseItem.values.some(...)\<close>: the values in their order, up to the first that matches.\<close>

fun someMatches :: "host \<Rightarrow> val \<Rightarrow> caseValue list \<Rightarrow> bool option" where
  "someMatches h varValue [] = Some False"
| "someMatches h varValue (v # vs) =
     (case valueMatches h v varValue of
        None \<Rightarrow> None
      | Some True \<Rightarrow> Some True
      | Some False \<Rightarrow> someMatches h varValue vs)"

definition caseMatches :: "host \<Rightarrow> val \<Rightarrow> caseItem \<Rightarrow> bool option" where
  "caseMatches h varValue caseItem = someMatches h varValue (c_values caseItem)"

definition casoText :: "host \<Rightarrow> caseItem \<Rightarrow> string" where
  "casoText h caseItem = ''Caso '' @ join '', '' (map (caseText h) (c_values caseItem))"

text \<open>
  The loop over the cases. The result is the flag \<open>executed\<close> and the state.
\<close>

fun runCases :: "host \<Rightarrow> exec \<Rightarrow> nat \<Rightarrow> val \<Rightarrow> caseItem list \<Rightarrow> interp \<Rightarrow> (bool \<times> interp) outcome" where
  "runCases h exec fuel varValue [] s = Return (False, s)"
| "runCases h exec fuel varValue (caseItem # others) s =
     (case caseMatches h varValue caseItem of
        None \<Rightarrow> Thrown CannotConvert s
      | Some True \<Rightarrow>
          (case runBlock exec fuel (c_startLine caseItem) (c_endLine caseItem)
                  (addFlowchartNode Process (casoText h caseItem) s) of
             Return (s', j) \<Rightarrow> Return (True, s')
           | Thrown x t \<Rightarrow> Thrown x t
           | OutOfFuel \<Rightarrow> OutOfFuel)
      | Some False \<Rightarrow> runCases h exec fuel varValue others s)"

text \<open>\<open>Find matching case and execute\<close>, and the default case.\<close>

definition segunRun :: "host \<Rightarrow> exec \<Rightarrow> nat \<Rightarrow> val \<Rightarrow> caseItem list \<Rightarrow> (nat \<times> int) option \<Rightarrow> nat \<Rightarrow> interp \<Rightarrow> (interp \<times> nat) outcome" where
  "segunRun h exec fuel varValue cs defaultCase endIndex s =
     (case runCases h exec fuel varValue cs s of
        Return (executed, s') \<Rightarrow>
          (case defaultCase of
             Some (startLine, endLine) \<Rightarrow>
               if \<not> executed \<and> endLine \<noteq> -1
               then returning (runBlock exec fuel startLine (nat endLine)
                      (addFlowchartNode Process ''De Otro Modo'' s')) endIndex
               else Return (s', endIndex)
           | None \<Rightarrow> Return (s', endIndex))
      | Thrown x t \<Rightarrow> Thrown x t
      | OutOfFuel \<Rightarrow> OutOfFuel)"

definition undefinedInSegun :: "string \<Rightarrow> string" where
  "undefinedInSegun varName = ''Error: La variable \"'' @ varName @ ''\" no ha sido definida.''"

definition segunBranch :: "host \<Rightarrow> exec \<Rightarrow> nat \<Rightarrow> string list \<Rightarrow> nat \<Rightarrow> string \<Rightarrow> interp \<Rightarrow> (interp \<times> nat) outcome" where
  "segunBranch h exec fuel lines index varName s =
     (case mapGet (variables s) (toLowerCase varName) of
        None \<Rightarrow> Return (pushError (undefinedInSegun varName) s, index + 1)
      | Some var \<Rightarrow>
          (let varValue = vvalue var;
               s1 = addFlowchartNode Decision (''Segun '' @ varName) s;
               sc = scanSegun h lines \<lparr>sg_depth = 1, sg_endIndex = index + 1, sg_cases = [],
                      sg_defaultCase = None, sg_currentCaseStart = -1, sg_currentCaseValues = []\<rparr>
           in segunRun h exec fuel varValue (sg_cases sc) (sg_defaultCase sc) (sg_endIndex sc) s1))"

subsection \<open>Si, SiNo and SiNo Si\<close>

text \<open>
  The scan of a \<open>Si\<close> block: the index of the first \<open>sino\<close> or \<open>sino si\<close> line at depth 1, or \<open>-1\<close>,
  and the index after the line that closes the block.
\<close>

function scanSi :: "string list \<Rightarrow> nat \<Rightarrow> int \<Rightarrow> nat \<Rightarrow> int \<times> nat" where
  "scanSi lines depth sinoIndex endIndex =
     (if endIndex < length lines \<and> depth > 0 then
        (let checkLine = trim (toLowerCase (lines ! endIndex));
             d1 = (if regexTest re_siOpen checkLine \<and> includes_s ''entonces'' checkLine
                   then depth + 1 else depth);
             d2 = (if checkLine = ''finsi'' then d1 - 1 else d1);
             sinoIndex' = (if d2 = 1 \<and> sinoIndex = -1
                              \<and> (checkLine = ''sino'' \<or> regexTest re_sinoSi checkLine)
                           then int endIndex else sinoIndex)
         in scanSi lines d2 sinoIndex' (endIndex + 1))
      else (sinoIndex, endIndex))"
  by pat_completeness auto
termination
  by (relation "measure (\<lambda>(lines, depth, sinoIndex, endIndex). length lines - endIndex)") auto

declare scanSi.simps [simp del]

definition siBranch :: "host \<Rightarrow> exec \<Rightarrow> nat \<Rightarrow> string list \<Rightarrow> nat \<Rightarrow> string \<Rightarrow> interp \<Rightarrow> (interp \<times> nat) outcome" where
  "siBranch h exec fuel lines index condition s =
     (case evaluateCondition h condition s of
        None \<Rightarrow> Thrown CannotConvert s
      | Some conditionResult \<Rightarrow>
          (let s1 = addFlowchartNode Decision (''Si '' @ condition) s
           in case scanSi lines 1 (-1) (index + 1) of
                (sinoIndex, endIndex) \<Rightarrow>
                  if conditionResult then
                    returning (runBlock exec fuel (index + 1)
                      (if sinoIndex > 0 then nat sinoIndex else endIndex - 1) s1) endIndex
                  else if sinoIndex > 0 then
                    (if regexTest re_sinoSi (trim (toLowerCase (lines ! nat sinoIndex)))
                     then returning (runBlock exec fuel (nat sinoIndex) (endIndex - 1) s1) endIndex
                     else returning (runBlock exec fuel (nat sinoIndex + 1) (endIndex - 1) s1) endIndex)
                  else Return (s1, endIndex)))"

text \<open>
  The two scans of a \<open>SiNo Si\<close> line that is run as a statement: the next \<open>sino\<close> or \<open>sino si\<close>
  line at depth 1 (the scan stops there), or \<open>-1\<close>; and the index after the closing \<open>finsi\<close>.
\<close>

function scanSinoSi :: "string list \<Rightarrow> nat \<Rightarrow> nat \<Rightarrow> int" where
  "scanSinoSi lines depth endIndex =
     (if endIndex < length lines \<and> depth > 0 then
        (let checkLine = trim (toLowerCase (lines ! endIndex));
             d1 = (if regexTest re_siOpen checkLine \<and> includes_s ''entonces'' checkLine
                   then depth + 1 else depth);
             d2 = (if checkLine = ''finsi'' then d1 - 1 else d1)
         in if d2 = 1 \<and> (checkLine = ''sino'' \<or> regexTest re_sinoSi checkLine)
            then int endIndex
            else scanSinoSi lines d2 (endIndex + 1))
      else -1)"
  by pat_completeness auto
termination
  by (relation "measure (\<lambda>(lines, depth, endIndex). length lines - endIndex)") auto

declare scanSinoSi.simps [simp del]

function findFinSi :: "string list \<Rightarrow> nat \<Rightarrow> nat \<Rightarrow> nat" where
  "findFinSi lines finsiDepth finsiIndex =
     (if finsiIndex < length lines \<and> finsiDepth > 0 then
        (let checkLine = trim (toLowerCase (lines ! finsiIndex));
             d1 = (if startsWith ''si '' checkLine \<and> includes_s ''entonces'' checkLine
                   then finsiDepth + 1 else finsiDepth);
             d2 = (if checkLine = ''finsi'' then d1 - 1 else d1)
         in findFinSi lines d2 (finsiIndex + 1))
      else finsiIndex)"
  by pat_completeness auto
termination
  by (relation "measure (\<lambda>(lines, finsiDepth, finsiIndex). length lines - finsiIndex)") auto

declare findFinSi.simps [simp del]

definition sinoSiBranch :: "host \<Rightarrow> exec \<Rightarrow> nat \<Rightarrow> string list \<Rightarrow> nat \<Rightarrow> string \<Rightarrow> interp \<Rightarrow> (interp \<times> nat) outcome" where
  "sinoSiBranch h exec fuel lines index condition s =
     (case evaluateCondition h condition s of
        None \<Rightarrow> Thrown CannotConvert s
      | Some conditionResult \<Rightarrow>
          (let s1 = addFlowchartNode Decision (''SiNo Si '' @ condition) s;
               sinoIndex = scanSinoSi lines 1 (index + 1);
               finsiIndex = findFinSi lines 1 (index + 1)
           in if conditionResult then
                returning (runBlock exec fuel (index + 1)
                  (if sinoIndex > 0 then nat sinoIndex else finsiIndex - 1) s1) finsiIndex
              else if sinoIndex > 0 then Return (s1, nat sinoIndex)
              else Return (s1, finsiIndex)))"

subsection \<open>Assignment\<close>

definition undefinedArray :: "string \<Rightarrow> string" where
  "undefinedArray arrName =
     ''Error: El arreglo \"'' @ arrName @ ''\" no ha sido definido. Use \"Dimension '' @ arrName
       @ ''[tama'' @ [CHR 0xF1] @ ''o]\" primero.''"

text \<open>
  \<^verbatim>\<open>arr[n] = v\<close> for a number \<open>n\<close>: an index below the length overwrites an element, an index
  from the length on extends the array with holes, which read as undefined; any other number
  names a property and leaves the elements as they are.
\<close>

definition arraySet :: "val list \<Rightarrow> jsnum \<Rightarrow> val \<Rightarrow> val list" where
  "arraySet elems n v =
     (case n of
        Fin q \<Rightarrow>
          if isInteger q \<and> 0 \<le> q \<and> q < 2 ^ 32 - 1 then
            (if nat \<lfloor>q\<rfloor> < length elems then elems[nat \<lfloor>q\<rfloor> := v]
             else elems @ replicate (nat \<lfloor>q\<rfloor> - length elems) VUndefined @ [v])
          else elems
      | _ \<Rightarrow> elems)"

definition assignArray :: "host \<Rightarrow> string \<Rightarrow> string \<Rightarrow> string \<Rightarrow> string \<Rightarrow> interp \<Rightarrow> interp outcome" where
  "assignArray h varName expression arrName indexExpr s =
     (case mapGet (variables s) (toLowerCase arrName) of
        None \<Rightarrow> Return (pushError (undefinedArray arrName) s)
      | Some arr \<Rightarrow>
          (case evaluateExpression h indexExpr s of
             Return (idx, s1) \<Rightarrow>
               (case evaluateExpression h expression s1 of
                  Return (v, s2) \<Rightarrow>
                    (case vvalue arr of
                       VArr elems \<Rightarrow>
                         (case toNumber h idx of
                            None \<Rightarrow> Thrown CannotConvert s2
                          | Some n \<Rightarrow>
                              Return (addFlowchartNode Process (varName @ '' <- '' @ expression)
                                (notifyVariableChange
                                  (s2\<lparr>variables := mapSet (toLowerCase arrName)
                                      (arr\<lparr>vvalue := VArr (arraySet elems n v)\<rparr>) (variables s2)\<rparr>))))
                     | _ \<Rightarrow> Return (addFlowchartNode Process (varName @ '' <- '' @ expression) s2))
                | Thrown x t \<Rightarrow> Thrown x t
                | OutOfFuel \<Rightarrow> OutOfFuel)
           | Thrown x t \<Rightarrow> Thrown x t
           | OutOfFuel \<Rightarrow> OutOfFuel))"

definition assignScalar :: "host \<Rightarrow> string \<Rightarrow> string \<Rightarrow> interp \<Rightarrow> interp outcome" where
  "assignScalar h varName expression s =
     (case mapGet (variables s) (toLowerCase varName) of
        None \<Rightarrow> Return (pushError (undefinedVariable varName) s)
      | Some existingVar \<Rightarrow>
          (case evaluateExpression h expression s of
             Return (v, s1) \<Rightarrow>
               Return (addFlowchartNode Process (varName @ '' <- '' @ expression)
                 (notifyVariableChange
                   (s1\<lparr>variables := mapSet (toLowerCase varName) (existingVar\<lparr>vvalue := v\<rparr>)
                       (variables s1)\<rparr>)))
           | Thrown x t \<Rightarrow> Thrown x t
           | OutOfFuel \<Rightarrow> OutOfFuel))"

definition assignStmt :: "host \<Rightarrow> string \<Rightarrow> string \<Rightarrow> interp \<Rightarrow> interp outcome" where
  "assignStmt h line originalLine s =
     (if includes_s ''<-'' line \<or> includes_s ''='' line then
        (case regexMatch re_assign originalLine of
           Some m \<Rightarrow>
             (case regexMatch re_arrayTarget (grp m 1) of
                Some arrayMatch \<Rightarrow>
                  assignArray h (grp m 1) (grp m 2) (grp arrayMatch 1) (grp arrayMatch 2) s
              | None \<Rightarrow> assignScalar h (grp m 1) (grp m 2) s)
         | None \<Rightarrow> Return s)
      else Return s)"

section \<open>The dispatcher and the driver\<close>

text \<open>
  The tests of \<open>executeLine\<close> in their order. A block statement whose regular expression does
  not match falls through to the tests after it, as in the source.
\<close>

definition fromSinoSi :: "host \<Rightarrow> exec \<Rightarrow> nat \<Rightarrow> string list \<Rightarrow> nat \<Rightarrow> string \<Rightarrow> string \<Rightarrow> interp \<Rightarrow> (interp \<times> nat) outcome" where
  "fromSinoSi h exec fuel lines index line originalLine s =
     (case (if regexTest re_sinoSi line then regexMatch re_sinoSiCond originalLine else None) of
        Some m \<Rightarrow> sinoSiBranch h exec fuel lines index (trim (grp m 1)) s
      | None \<Rightarrow> nextLine (assignStmt h line originalLine s) (index + 1))"

definition fromSi :: "host \<Rightarrow> exec \<Rightarrow> nat \<Rightarrow> string list \<Rightarrow> nat \<Rightarrow> string \<Rightarrow> string \<Rightarrow> interp \<Rightarrow> (interp \<times> nat) outcome" where
  "fromSi h exec fuel lines index line originalLine s =
     (case (if startsWith ''si'' line \<and> \<not> startsWith ''sino'' line
            then regexMatch re_si originalLine else None) of
        Some m \<Rightarrow> siBranch h exec fuel lines index (trim (grp m 1)) s
      | None \<Rightarrow> fromSinoSi h exec fuel lines index line originalLine s)"

definition fromSegun :: "host \<Rightarrow> exec \<Rightarrow> nat \<Rightarrow> string list \<Rightarrow> nat \<Rightarrow> string \<Rightarrow> string \<Rightarrow> interp \<Rightarrow> (interp \<times> nat) outcome" where
  "fromSegun h exec fuel lines index line originalLine s =
     (case (if startsWith ''segun'' line then regexMatch re_segun originalLine else None) of
        Some m \<Rightarrow> segunBranch h exec fuel lines index (grp m 1) s
      | None \<Rightarrow> fromSi h exec fuel lines index line originalLine s)"

definition fromPara :: "host \<Rightarrow> exec \<Rightarrow> nat \<Rightarrow> string list \<Rightarrow> nat \<Rightarrow> string \<Rightarrow> string \<Rightarrow> interp \<Rightarrow> (interp \<times> nat) outcome" where
  "fromPara h exec fuel lines index line originalLine s =
     (case (if startsWith ''para'' line then regexMatch re_para originalLine else None) of
        Some m \<Rightarrow> paraBranch h exec fuel lines index m s
      | None \<Rightarrow> fromSegun h exec fuel lines index line originalLine s)"

definition fromMientras :: "host \<Rightarrow> exec \<Rightarrow> nat \<Rightarrow> string list \<Rightarrow> nat \<Rightarrow> string \<Rightarrow> string \<Rightarrow> interp \<Rightarrow> (interp \<times> nat) outcome" where
  "fromMientras h exec fuel lines index line originalLine s =
     (case (if startsWith ''mientras'' line then regexMatch re_mientras originalLine else None) of
        Some m \<Rightarrow> mientrasBranch h exec fuel lines index (grp m 1) s
      | None \<Rightarrow> fromPara h exec fuel lines index line originalLine s)"

text \<open>
  The body of \<open>executeLine\<close>. At an index beyond the last line \<^verbatim>\<open>lines[index]\<close> is undefined
  and the call of its method throws.
\<close>

definition executeLineBody :: "host \<Rightarrow> exec \<Rightarrow> nat \<Rightarrow> string list \<Rightarrow> nat \<Rightarrow> interp \<Rightarrow> (interp \<times> nat) outcome" where
  "executeLineBody h exec fuel lines index s0 =
     (let s = s0\<lparr>dispatched := dispatched s0 @ [(index, hasError s0)]\<rparr> in
      if length lines \<le> index then Thrown ReadOfUndefined s
      else
        (let line = toLowerCase (lines ! index);
             originalLine = lines ! index
         in if startsWith ''algoritmo'' line \<or> startsWith ''proceso'' line then Return (s, index + 1)
            else if startsWith ''finalgoritmo'' line \<or> startsWith ''finproceso'' line
              then Return (s, index + 1)
            else if startsWith ''definir'' line then Return (definirStmt originalLine s, index + 1)
            else if startsWith ''dimension'' line then nextLine (dimensionStmt originalLine s) (index + 1)
            else if startsWith ''leer'' line then Return (leerStmt h originalLine s, index + 1)
            else if startsWith ''escribir'' line then nextLine (escribirStmt h originalLine s) (index + 1)
            else fromMientras h exec fuel lines index line originalLine s))"

primrec executeLine :: "nat \<Rightarrow> host \<Rightarrow> string list \<Rightarrow> nat \<Rightarrow> interp \<Rightarrow> (interp \<times> nat) outcome" where
  "executeLine 0 h lines index s = OutOfFuel"
| "executeLine (Suc fuel) h lines index s =
     executeLineBody h (executeLine fuel h lines) fuel lines index s"

definition thrownError :: "host \<Rightarrow> nat \<Rightarrow> exn \<Rightarrow> string" where
  "thrownError h i x =
     ''Error en l'' @ [CHR 0xED] @ ''nea '' @ digitsOf (i + 1) @ '': '' @ errorToString h x"

text \<open>The loop of \<open>execute\<close>; \<open>None\<close> when the fuel runs out.\<close>

fun mainLoop :: "nat \<Rightarrow> host \<Rightarrow> string list \<Rightarrow> nat \<Rightarrow> interp \<Rightarrow> interp option" where
  "mainLoop 0 h lines i s = (if i < length lines \<and> \<not> hasError s then None else Some s)"
| "mainLoop (Suc fuel) h lines i s =
     (if i < length lines \<and> \<not> hasError s then
        (case executeLine fuel h lines i s of
           Return (s', i') \<Rightarrow> mainLoop fuel h lines i' s'
         | Thrown x t \<Rightarrow> mainLoop fuel h lines i (pushError (thrownError h i x) t)
         | OutOfFuel \<Rightarrow> None)
      else Some s)"

definition preprocess :: "string \<Rightarrow> string list" where
  "preprocess code =
     filter (\<lambda>line. line \<noteq> [] \<and> \<not> startsWith ''//'' line)
       (map (\<lambda>line. replaceAll re_semiEntonces (\<lambda>t m. '' '' @ grp (caps m) 1)
                      (replaceAll re_semicolon (constText []) (trim line)))
          (split (CHR 0x0A) code))"

text \<open>\<open>Connect nodes sequentially\<close>.\<close>

fun connect :: "flowchartNode list \<Rightarrow> flowchartNode list" where
  "connect (a # b # ns) = a\<lparr>nchildren := nchildren a @ [nid b]\<rparr> # connect (b # ns)"
| "connect ns = ns"

text \<open>
  \<open>execute\<close>, in two steps: \<open>run\<close> is the state of the interpreter when \<open>execute\<close> returns, and
  \<open>execute\<close> is the result made from it.
\<close>

definition run :: "nat \<Rightarrow> host \<Rightarrow> string \<Rightarrow> interp \<Rightarrow> interp option" where
  "run fuel h code ip =
     (case mainLoop fuel h (preprocess code) 0 (addFlowchartNode Start ''Inicio'' (reset ip)) of
        None \<Rightarrow> None
      | Some s \<Rightarrow>
          (let s' = addFlowchartNode End ''Fin'' s
           in Some (s'\<lparr>flowchart := connect (flowchart s')\<rparr>)))"

definition execute :: "nat \<Rightarrow> host \<Rightarrow> string \<Rightarrow> interp \<Rightarrow> executionResult option" where
  "execute fuel h code ip =
     map_option (\<lambda>s. \<lparr>r_output = outputs s, r_errors = errors s, r_flowchart = flowchart s\<rparr>)
       (run fuel h code ip)"

text \<open>\<open>defaultCode\<close>, the sample program of the source.\<close>

definition defaultCode :: string where
  "defaultCode = join [CHR 0x0A]
     [''Algoritmo condicionales'',
      ''    Definir edad Como Entero;'',
      ''    Escribir \"Digite su edad\";'',
      ''    Leer edad;'',
      [],
      ''    Si edad > 18 Entonces'',
      ''        Escribir \"Usted es mayor de edad\";'',
      ''    SiNo'',
      ''        Escribir \"Usted es menor de edad\";'',
      ''    FinSi'',
      ''FinAlgoritmo'']"

section \<open>A host and an interpreter for the examples\<close>

text \<open>
  The examples below run the interpreter on concrete programs, which needs a concrete host.
  \<open>exampleHost\<close> answers as ECMAScript does on what the examples hand to it:
  \<^item> \<open>jsEval\<close> knows the value of five function bodies; the other bodies met in the examples
    (a name that is not bound, as in \<^verbatim>\<open>return y\<close>, or an expression that is not complete, as
    in \<^verbatim>\<open>return Math.sqrt(5) % +\<close>) throw;
  \<^item> \<open>parseFloat\<close> and \<open>stringToNumber\<close> read a text of decimal digits; the other texts met in
    the examples (the empty text, a word) are not numbers;
  \<^item> the only value \<open>VObj k\<close> met in the examples is the object without a prototype that
    \<^verbatim>\<open>Object.create(null)\<close> makes: \<^verbatim>\<open>String\<close> and \<^verbatim>\<open>Number\<close> throw on it, its JSON text is
    \<^verbatim>\<open>{}\<close>, and it is truthy.
\<close>

definition exampleEval :: "string \<Rightarrow> val option" where
  "exampleEval src =
     (if src = ''return 20 > 18'' then Some (VBool True)
      else if src = ''return 10 > 18'' then Some (VBool False)
      else if src = ''return true'' then Some (VBool True)
      else if src = ''return 7'' then Some (VNum (Fin 7))
      else if src = ''return Object.create(null)'' then Some (VObj 0)
      else None)"

definition exampleNumber :: "string \<Rightarrow> jsnum" where
  "exampleNumber t = (if t \<noteq> [] \<and> list_all isDigit t then Fin (of_nat (decimalValue 0 t)) else NaN)"

definition exampleError :: "exn \<Rightarrow> string" where
  "exampleError x =
     (case x of
        InvalidArrayLength \<Rightarrow> ''RangeError: Invalid array length''
      | ReadOfUndefined \<Rightarrow> ''TypeError: Cannot read properties of undefined''
      | CannotConvert \<Rightarrow> ''TypeError: Cannot convert object to primitive value'')"

definition exampleHost :: host where
  "exampleHost = \<lparr>jsEval = exampleEval, parseFloat = exampleNumber, stringToNumber = exampleNumber,
     bigToString = (\<lambda>q. []), objToString = (\<lambda>k. None), objToNumber = (\<lambda>k. None),
     objToJson = (\<lambda>k. Some (Some ''{}'')), objTruthy = (\<lambda>k. True), errorToString = exampleError\<rparr>"

text \<open>A new interpreter, and the same with an input callback that always answers \<open>t\<close>.\<close>

definition newInterpreter :: interp where
  "newInterpreter = \<lparr>variables = [], outputs = [], errors = [], flowchart = [], nodeCounter = 0,
     inputCallback = None, variableChangeCallback = False, hasError = False, prompts = [],
     notified = [], dispatched = []\<rparr>"

definition answering :: "string \<Rightarrow> interp" where
  "answering t = newInterpreter\<lparr>inputCallback := Some (\<lambda>ps. t)\<rparr>"

section \<open>Notions used in the statements\<close>

text \<open>
  The text that the input callback gives at the read number \<open>i\<close> (from 0) of a \<open>Leer\<close> statement
  that reads \<open>names\<close> from the state \<open>s\<close>: the callback has then been given the prompts of the
  names up to that one. Without a callback it is the empty text.
\<close>

definition answerAt :: "interp \<Rightarrow> string list \<Rightarrow> nat \<Rightarrow> string" where
  "answerAt s names i =
     (case inputCallback s of
        None \<Rightarrow> []
      | Some cb \<Rightarrow> cb (prompts s @ map inputPrompt (take (Suc i) names)))"

text \<open>
  The body of a loop run \<open>k\<close> times in a row from a state: the state after the last pass, if
  every pass returns.
\<close>

fun passes :: "(interp \<Rightarrow> (interp \<times> nat) outcome) \<Rightarrow> nat \<Rightarrow> interp \<Rightarrow> interp option" where
  "passes body 0 s = Some s"
| "passes body (Suc k) s =
     (case body s of
        Return (s', j) \<Rightarrow> passes body k s'
      | Thrown x t \<Rightarrow> None
      | OutOfFuel \<Rightarrow> None)"

text \<open>
  The passes of a \<open>Para\<close> loop for a list of values of its variable, one after the other: the
  state after the last pass, if every pass starts without the fatal flag and returns.
\<close>

fun forPasses :: "(interp \<Rightarrow> (interp \<times> nat) outcome) \<Rightarrow> string \<Rightarrow> nat list \<Rightarrow> interp \<Rightarrow> interp option" where
  "forPasses body varName [] s = Some s"
| "forPasses body varName (v # vs) s =
     (if hasError s then None
      else case body (setLoopVariable varName (enat v) s) of
             Return (s', j) \<Rightarrow> forPasses body varName vs s'
           | Thrown x t \<Rightarrow> None
           | OutOfFuel \<Rightarrow> None)"

text \<open>The values \<open>a\<close>, \<open>a + step\<close>, ... of \<open>n\<close> passes.\<close>

definition forValues :: "nat \<Rightarrow> nat \<Rightarrow> nat \<Rightarrow> nat list" where
  "forValues a step n = map (\<lambda>k. a + k * step) [0..<n]"

text \<open>
  No call of \<open>executeLine\<close> recorded in the state was made with the fatal flag set; and a
  property of the state in which a call ends, by a return or by a throw.
\<close>

definition cleanLog :: "interp \<Rightarrow> bool" where
  "cleanLog s = list_all (\<lambda>d. \<not> snd d) (dispatched s)"

definition endsIn :: "(interp \<Rightarrow> bool) \<Rightarrow> (interp \<times> 'a) outcome \<Rightarrow> bool" where
  "endsIn P r =
     (case r of
        Return (s, j) \<Rightarrow> P s
      | Thrown x t \<Rightarrow> P t
      | OutOfFuel \<Rightarrow> True)"

section \<open>Example programs and states\<close>



section \<open>Auxiliary facts\<close>

lemma mapGet_mapSet_same: "mapGet (mapSet k v ps) k = Some v"
  by (induction ps) (auto simp: mapGet_def)

lemma mapGet_mapSet_other: "k' \<noteq> k \<Longrightarrow> mapGet (mapSet k v ps) k' = mapGet ps k'"
  by (induction ps) (auto simp: mapGet_def)

text \<open>Two keywords that a line starts with agree on their first and second characters.\<close>

lemma startsWith_first: "startsWith (a # p) l \<Longrightarrow> startsWith (b # q) l \<Longrightarrow> a = b"
  by (cases l) auto


lemma variables_addFlowchartNode [simp]: "variables (addFlowchartNode ty txt s) = variables s"
  by (simp add: addFlowchartNode_def)

lemma variables_notifyVariableChange [simp]: "variables (notifyVariableChange s) = variables s"
  by (simp add: notifyVariableChange_def)

section \<open>Declarations\<close>

lemma getDefaultValue_other:
  "toLowerCase ty \<notin> {''entero'', ''real'', ''caracter'', ''cadena'', ''logico''}
     \<Longrightarrow> getDefaultValue ty = VNull"
  by (simp add: getDefaultValue_def Let_def)

text \<open>
  Claim C10. A line that \<open>executeLine\<close> takes as a declaration (it starts with \<open>definir\<close> and the
  regular expression of the declaration matches it, with the name as group 1 and the type as
  group 2) and whose type, in lower case, is none of \<open>entero\<close>, \<open>real\<close>, \<open>caracter\<close>, \<open>cadena\<close>
  and \<open>logico\<close>, binds the name in lower case to a variable whose value is null. The witness is
  the declaration of a variable of the type \<open>Arreglo\<close>.
\<close>

theorem definir_other_type_is_null:
  assumes "index < length lines"
    and "startsWith ''definir'' (toLowerCase (lines ! index))"
    and "regexMatch re_definir (lines ! index) = Some m"
    and "toLowerCase (grp m 2) \<notin> {''entero'', ''real'', ''caracter'', ''cadena'', ''logico''}"
  shows "\<exists>s'. executeLine (Suc fuel) h lines index s = Return (s', index + 1)
     \<and> mapGet (variables s') (toLowerCase (grp m 1))
         = Some \<lparr>vname = grp m 1, vtype = toLowerCase (grp m 2), vvalue = VNull\<rparr>"
proof -
  let ?line = "toLowerCase (lines ! index)"
  have a: "\<not> startsWith ''algoritmo'' ?line" "\<not> startsWith ''proceso'' ?line"
    "\<not> startsWith ''finalgoritmo'' ?line" "\<not> startsWith ''finproceso'' ?line"
    using assms(2) startsWith_first by fastforce+
  show ?thesis
    using assms a
    by (simp add: executeLineBody_def Let_def definirStmt_def mapGet_mapSet_same getDefaultValue_other)
qed

theorem definir_other_type_is_null_witness:
  "\<exists>s'. executeLine (Suc 0) exampleHost [''Definir a Como Arreglo''] 0 newInterpreter = Return (s', 0 + 1)
     \<and> mapGet (variables s') ''a'' = Some \<lparr>vname = ''a'', vtype = ''arreglo'', vvalue = VNull\<rparr>"
proof -
  have 1: "(0::nat) < length [''Definir a Como Arreglo'']" by simp
  have 2: "startsWith ''definir'' (toLowerCase ([''Definir a Como Arreglo''] ! 0))" by code_simp
  have 3: "regexMatch re_definir ([''Definir a Como Arreglo''] ! 0) = Some [(2, ''Arreglo''), (1, ''a'')]"
    by code_simp
  have 4: "toLowerCase (grp [(2, ''Arreglo''), (1, ''a'')] 2)
      \<notin> {''entero'', ''real'', ''caracter'', ''cadena'', ''logico''}"
    by code_simp
  have 5: "grp [(2, ''Arreglo''), (1, ''a'')] 1 = ''a''" "grp [(2, ''Arreglo''), (1, ''a'')] 2 = ''Arreglo''"
    "toLowerCase ''a'' = ''a''" "toLowerCase ''Arreglo'' = ''arreglo''"
    by code_simp+
  show ?thesis
    using definir_other_type_is_null [OF 1 2 3 4, of 0 exampleHost newInterpreter]
    unfolding 5 .
qed

section \<open>Arrays\<close>








section \<open>The two evaluators\<close>





section \<open>Input\<close>

lemma leerVars_all_declared:
  "\<forall>n \<in> set names. mapGet (variables s) (toLowerCase n) \<noteq> None \<Longrightarrow> fst (leerVars h names s) = True"
proof (induction names arbitrary: s)
  case Nil
  then show ?case by simp
next
  case (Cons n ns)
  obtain var where v: "mapGet (variables s) (toLowerCase n) = Some var"
    using Cons.prems by auto
  obtain t s1 where a: "askInput (inputPrompt n) s = (t, s1)" by (cases "askInput (inputPrompt n) s")
  have vs: "variables s1 = variables s"
    using a by (auto simp: askInput_def split: option.splits)
  let ?s2 = "notifyVariableChange (s1\<lparr>variables := mapSet (toLowerCase n)
                       (var\<lparr>vvalue := readValue h (vtype var) t\<rparr>) (variables s1)\<rparr>)"
  have "\<forall>k \<in> set ns. mapGet (variables ?s2) (toLowerCase k) \<noteq> None"
  proof
    fix k assume "k \<in> set ns"
    then have "mapGet (variables s) (toLowerCase k) \<noteq> None" using Cons.prems by simp
    then show "mapGet (variables ?s2) (toLowerCase k) \<noteq> None"
      by (cases "toLowerCase k = toLowerCase n") (simp_all add: vs mapGet_mapSet_same mapGet_mapSet_other)
  qed
  then have "fst (leerVars h ns ?s2) = True" by (rule Cons.IH)
  then show ?case using v a by simp
qed

lemma leerVars_other_key:
  "leerVars h names s = (True, s') \<Longrightarrow> k \<notin> toLowerCase ` set names
     \<Longrightarrow> mapGet (variables s') k = mapGet (variables s) k"
proof (induction names arbitrary: s)
  case Nil
  then show ?case by simp
next
  case (Cons n ns)
  from Cons.prems(1) obtain var where v: "mapGet (variables s) (toLowerCase n) = Some var"
    by (cases "mapGet (variables s) (toLowerCase n)") auto
  obtain t s1 where a: "askInput (inputPrompt n) s = (t, s1)" by (cases "askInput (inputPrompt n) s")
  have vs: "variables s1 = variables s"
    using a by (auto simp: askInput_def split: option.splits)
  let ?s2 = "notifyVariableChange (s1\<lparr>variables := mapSet (toLowerCase n)
                       (var\<lparr>vvalue := readValue h (vtype var) t\<rparr>) (variables s1)\<rparr>)"
  have r: "leerVars h ns ?s2 = (True, s')" using Cons.prems(1) v a by simp
  have "k \<notin> toLowerCase ` set ns" "k \<noteq> toLowerCase n" using Cons.prems(2) by auto
  then show ?case using Cons.IH [OF r] by (simp add: vs mapGet_mapSet_other)
qed

text \<open>
  What a \<open>Leer\<close> that completes leaves in the variable named last at the position \<open>i\<close> of its
  list: the binding it had, with the value read from the answer to the read number \<open>i\<close>.
\<close>

lemma leerVars_last_read:
  "leerVars h names s = (True, s') \<Longrightarrow> i < length names
     \<Longrightarrow> \<forall>j. i < j \<and> j < length names \<longrightarrow> toLowerCase (names ! j) \<noteq> toLowerCase (names ! i)
     \<Longrightarrow> mapGet (variables s) (toLowerCase (names ! i)) = Some var
     \<Longrightarrow> mapGet (variables s') (toLowerCase (names ! i))
         = Some (var\<lparr>vvalue := readValue h (vtype var) (answerAt s names i)\<rparr>)"
proof (induction names arbitrary: s i var)
  case Nil
  then show ?case by simp
next
  case (Cons n ns)
  from Cons.prems(1) obtain var0 where v: "mapGet (variables s) (toLowerCase n) = Some var0"
    by (cases "mapGet (variables s) (toLowerCase n)") auto
  obtain t s1 where a: "askInput (inputPrompt n) s = (t, s1)" by (cases "askInput (inputPrompt n) s")
  have vs: "variables s1 = variables s" and cb: "inputCallback s1 = inputCallback s"
    using a by (auto simp: askInput_def split: option.splits)
  have t: "t = answerAt s (n # ns) 0"
    using a by (auto simp: askInput_def answerAt_def split: option.splits)
  have ps: "inputCallback s \<noteq> None \<Longrightarrow> prompts s1 = prompts s @ [inputPrompt n]"
    using a by (auto simp: askInput_def split: option.splits)
  let ?s2 = "notifyVariableChange (s1\<lparr>variables := mapSet (toLowerCase n)
                       (var0\<lparr>vvalue := readValue h (vtype var0) t\<rparr>) (variables s1)\<rparr>)"
  have r: "leerVars h ns ?s2 = (True, s')" using Cons.prems(1) v a by simp
  have cb2: "inputCallback ?s2 = inputCallback s" and ps2: "prompts ?s2 = prompts s1"
    by (simp_all add: cb notifyVariableChange_def)
  show ?case
  proof (cases i)
    case 0
    have "toLowerCase n \<notin> toLowerCase ` set ns"
    proof
      assume "toLowerCase n \<in> toLowerCase ` set ns"
      then obtain j where "j < length ns" "toLowerCase (ns ! j) = toLowerCase n"
        by (auto simp: in_set_conv_nth)
      then show False using Cons.prems(3) 0 by (auto dest: spec [of _ "Suc j"])
    qed
    then have "mapGet (variables s') (toLowerCase n) = mapGet (variables ?s2) (toLowerCase n)"
      using leerVars_other_key [OF r] by simp
    moreover have "var0 = var" using v Cons.prems(4) 0 by simp
    ultimately show ?thesis using 0 t by (simp add: mapGet_mapSet_same)
  next
    case (Suc i')
    have i': "i' < length ns" using Cons.prems(2) Suc by simp
    have last: "\<forall>j. i' < j \<and> j < length ns \<longrightarrow> toLowerCase (ns ! j) \<noteq> toLowerCase (ns ! i')"
      using Cons.prems(3) Suc by (auto dest: spec [of _ "Suc j" for j])
    have var: "mapGet (variables s) (toLowerCase (ns ! i')) = Some var"
      using Cons.prems(4) Suc by simp
    obtain var1 where v1: "mapGet (variables ?s2) (toLowerCase (ns ! i')) = Some var1"
      and ty: "vtype var1 = vtype var" and upd: "\<And>x. var1\<lparr>vvalue := x\<rparr> = var\<lparr>vvalue := x\<rparr>"
    proof (cases "toLowerCase (ns ! i') = toLowerCase n")
      case True
      then have "var0 = var" using v var by simp
      then show ?thesis using True that [of "var\<lparr>vvalue := readValue h (vtype var) t\<rparr>"]
        by (simp add: vs mapGet_mapSet_same)
    next
      case False
      then show ?thesis using var that [of var] by (simp add: vs mapGet_mapSet_other)
    qed
    have ans: "answerAt ?s2 ns i' = answerAt s (n # ns) (Suc i')"
      using ps by (cases "inputCallback s") (simp_all add: answerAt_def cb2 ps2)
    show ?thesis
      using Cons.IH [OF r i' last v1] Suc by (simp add: ty upd ans)
  qed
qed

lemma readValue_numeric:
  "ty = ''entero'' \<or> ty = ''real'' \<Longrightarrow>
     \<exists>x. readValue h ty t = VNum x \<and> x \<noteq> NaN \<and> (parseFloat h t = NaN \<longrightarrow> x = Fin 0)"
  by (auto simp: readValue_def)

text \<open>
  Claim C9. Take a line that \<open>executeLine\<close> takes as an input statement (it starts with \<open>leer\<close>
  and the regular expression of the statement matches it), whose names are all declared, and a
  name of its list that is declared as \<open>entero\<close> or as \<open>real\<close>, at the position \<open>i\<close> where the
  list names that variable last. After the statement the variable holds a number that is not
  NaN, and that is \<open>0\<close> when the text given for that read is one that \<open>parseFloat\<close> does not take
  as a number; without an input callback that text is the empty one (\<open>answerAt\<close>).
\<close>

theorem leer_numeric_is_zero_never_nan:
  assumes "index < length lines"
    and "startsWith ''leer'' (toLowerCase (lines ! index))"
    and "regexMatch re_leer (lines ! index) = Some m"
    and "names = leerNames (grp m 1)"
    and "\<forall>n \<in> set names. mapGet (variables s) (toLowerCase n) \<noteq> None"
    and "i < length names"
    and "\<forall>j. i < j \<and> j < length names \<longrightarrow> toLowerCase (names ! j) \<noteq> toLowerCase (names ! i)"
    and "mapGet (variables s) (toLowerCase (names ! i)) = Some var"
    and "vtype var = ''entero'' \<or> vtype var = ''real''"
  shows "\<exists>s' x. executeLine (Suc fuel) h lines index s = Return (s', index + 1)
     \<and> mapGet (variables s') (toLowerCase (names ! i)) = Some (var\<lparr>vvalue := VNum x\<rparr>)
     \<and> x \<noteq> NaN
     \<and> (parseFloat h (answerAt s names i) = NaN \<longrightarrow> x = Fin 0)"
proof -
  let ?line = "toLowerCase (lines ! index)"
  let ?s = "s\<lparr>dispatched := dispatched s @ [(index, hasError s)]\<rparr>"
  have a: "\<not> startsWith ''algoritmo'' ?line" "\<not> startsWith ''proceso'' ?line"
    "\<not> startsWith ''finalgoritmo'' ?line" "\<not> startsWith ''finproceso'' ?line"
    "\<not> startsWith ''definir'' ?line" "\<not> startsWith ''dimension'' ?line"
    using assms(2) startsWith_first by fastforce+
  obtain s1 where l: "leerVars h names ?s = (True, s1)"
    using leerVars_all_declared [of names ?s h] assms(5) by (cases "leerVars h names ?s") auto
  have v: "mapGet (variables ?s) (toLowerCase (names ! i)) = Some var" using assms(8) by simp
  have an: "answerAt ?s names i = answerAt s names i"
    by (simp add: answerAt_def split: option.splits)
  obtain x where x: "readValue h (vtype var) (answerAt s names i) = VNum x" "x \<noteq> NaN"
    "parseFloat h (answerAt s names i) = NaN \<longrightarrow> x = Fin 0"
    using readValue_numeric [OF assms(9)] by blast
  have "executeLine (Suc fuel) h lines index s
      = Return (addFlowchartNode Input (''Leer '' @ grp m 1) s1, index + 1)"
    using assms(1,2,3) a l [unfolded assms(4)]
    by (simp add: executeLineBody_def Let_def leerStmt_def)
  moreover have "mapGet (variables s1) (toLowerCase (names ! i)) = Some (var\<lparr>vvalue := VNum x\<rparr>)"
    using leerVars_last_read [OF l assms(6,7) v] x(1) an by simp
  ultimately show ?thesis using x(2,3) by auto
qed

theorem leer_numeric_is_zero_never_nan_witness:
  "\<exists>s'. executeLine (Suc 0) exampleHost [''Leer n''] 0
          ((answering ''abc'')\<lparr>variables := [(''n'', \<lparr>vname = ''n'', vtype = ''entero'', vvalue = VNum (Fin 5)\<rparr>)]\<rparr>)
        = Return (s', 0 + 1)
      \<and> mapGet (variables s') ''n'' = Some \<lparr>vname = ''n'', vtype = ''entero'', vvalue = VNum (Fin 0)\<rparr>"
proof -
  let ?var = "\<lparr>vname = ''n'', vtype = ''entero'', vvalue = VNum (Fin 5)\<rparr>"
  let ?s = "(answering ''abc'')\<lparr>variables := [(''n'', ?var)]\<rparr>"
  have 1: "(0::nat) < length [''Leer n'']" by simp
  have 2: "startsWith ''leer'' (toLowerCase ([''Leer n''] ! 0))" by code_simp
  have 3: "regexMatch re_leer ([''Leer n''] ! 0) = Some [(1, ''n'')]" by code_simp
  have 4: "[''n''] = leerNames (grp [(1, ''n'')] 1)" by code_simp
  have 5: "\<forall>n \<in> set [''n'']. mapGet (variables ?s) (toLowerCase n) \<noteq> None" by code_simp
  have 6: "(0::nat) < length [''n'']" by simp
  have 7: "\<forall>j. 0 < j \<and> j < length [''n''] \<longrightarrow> toLowerCase ([''n''] ! j) \<noteq> toLowerCase ([''n''] ! 0)"
    by auto
  have 8: "mapGet (variables ?s) (toLowerCase ([''n''] ! 0)) = Some ?var" by code_simp
  have 9: "vtype ?var = ''entero'' \<or> vtype ?var = ''real''" by simp
  have 10: "parseFloat exampleHost (answerAt ?s [''n''] 0) = NaN" by code_simp
  have 11: "toLowerCase ([''n''] ! 0) = ''n''" by code_simp
  from leer_numeric_is_zero_never_nan [OF 1 2 3 4 5 6 7 8 9, of 0 exampleHost]
  obtain s' x where "executeLine (Suc 0) exampleHost [''Leer n''] 0 ?s = Return (s', 0 + 1)"
    and "mapGet (variables s') (toLowerCase ([''n''] ! 0)) = Some (?var\<lparr>vvalue := VNum x\<rparr>)"
    and "parseFloat exampleHost (answerAt ?s [''n''] 0) = NaN \<longrightarrow> x = Fin 0"
    by blast
  then show ?thesis using 10 unfolding 11 by simp
qed

end
